theory Spec2Isabelle
  imports Main "HOL-Library.Sublist"
begin

chapter \<open>Model of the sources\<close>

section \<open>Values of type \<open>any\<close>\<close>

text \<open>
  The TypeScript sources type protocol messages, action payloads and event payloads as
  \<open>any\<close>. Such a value is modelled as a tree of JavaScript values. \<open>JUndefined\<close> is
  \<open>undefined\<close>, \<open>JBigInt\<close> stands for the values on which \<open>JSON.stringify\<close> throws,
  and \<open>JBuffer\<close> is a Node \<open>Buffer\<close>. Numbers are integers (floating point is not
  modelled). An object is the list of its own properties in insertion order, which is the
  order \<open>Object.keys\<close> and \<open>JSON.stringify\<close> follow for keys that are not array indices.
\<close>

datatype json =
    JUndefined
  | JNull
  | JBool bool
  | JNum int
  | JStr string
  | JBigInt int
  | JBuffer string
  | JArr "json list"
  | JObj "(string \<times> json) list"

text \<open>A thrown \<open>Error\<close>: its \<open>message\<close> and its (usually absent) \<open>details\<close>.\<close>

datatype exn = Exn (exn_message: string) (exn_details: json)

definition new_Error :: "string \<Rightarrow> exn" where
  "new_Error m = Exn m JUndefined"

text \<open>JavaScript truthiness, as used by \<open>if (x)\<close>, \<open>!x\<close>, \<open>x || y\<close> and \<open>x && y\<close>.\<close>

fun truthy :: "json \<Rightarrow> bool" where
  "truthy JUndefined = False"
| "truthy JNull = False"
| "truthy (JBool b) = b"
| "truthy (JNum n) = (n \<noteq> 0)"
| "truthy (JStr s) = (s \<noteq> [])"
| "truthy (JBigInt n) = (n \<noteq> 0)"
| "truthy (JBuffer b) = True"
| "truthy (JArr xs) = True"
| "truthy (JObj ps) = True"

text \<open>The values \<open>undefined\<close> and \<open>null\<close>.\<close>

definition is_nullish :: "json \<Rightarrow> bool" where
  "is_nullish v = (v = JUndefined \<or> v = JNull)"

text \<open>\<open>x || y\<close> on values.\<close>

definition js_or :: "json \<Rightarrow> json \<Rightarrow> json" where
  "js_or x y = (if truthy x then x else y)"

text \<open>
  Property read \<open>o?.k\<close>: \<open>undefined\<close> on \<open>undefined\<close> and \<open>null\<close>, the property's value on an
  object that has it, \<open>undefined\<close> otherwise (built-in properties of primitives, such as a
  string's \<open>length\<close>, are not modelled). The sources read a property without \<open>?.\<close> only
  behind a truthiness test of the object, where both reads agree.
\<close>

fun jget :: "json \<Rightarrow> string \<Rightarrow> json" where
  "jget (JObj ps) k = (case map_of ps k of Some v \<Rightarrow> v | None \<Rightarrow> JUndefined)"
| "jget v k = JUndefined"

text \<open>Property write \<open>o.k = v\<close> on the property list: in place when present, appended otherwise.\<close>

fun jset :: "(string \<times> json) list \<Rightarrow> string \<Rightarrow> json \<Rightarrow> (string \<times> json) list" where
  "jset [] k v = [(k, v)]"
| "jset ((k', v') # ps) k v = (if k' = k then (k, v) # ps else (k', v') # jset ps k v)"

text \<open>\<open>xs.join(sep)\<close> on strings.\<close>

fun join :: "string \<Rightarrow> string list \<Rightarrow> string" where
  "join sep [] = []"
| "join sep [x] = x"
| "join sep (x # y # ys) = x @ sep @ join sep (y # ys)"

subsection \<open>\<open>JSON.stringify\<close>\<close>

text \<open>The decimal digits of a number, as \<open>String(n)\<close> prints an integer.\<close>

definition digit_char :: "int \<Rightarrow> char" where
  "digit_char d = char_of (of_char CHR ''0'' + d)"

function decimal :: "int \<Rightarrow> string" where
  "decimal n = (if 10 \<le> n then decimal (n div 10) @ [digit_char (n mod 10)] else [digit_char n])"
  by pat_completeness auto
termination
  by (relation "measure nat") auto

declare decimal.simps [simp del]

definition number_toString :: "int \<Rightarrow> string" where
  "number_toString i = (if 0 \<le> i then decimal i else CHR ''-'' # decimal (- i))"

text \<open>
  \<open>Object.keys(v)\<close> on a value that is not \<open>undefined\<close> or \<open>null\<close>: the property names of an
  object, the indices of a string, an array or a buffer, nothing for the other primitives.
\<close>

definition indices :: "nat \<Rightarrow> string list" where
  "indices n = map (\<lambda>i. decimal (int i)) [0..<n]"

fun Object_keys :: "json \<Rightarrow> string list" where
  "Object_keys (JObj ps) = map fst ps"
| "Object_keys (JStr s) = indices (length s)"
| "Object_keys (JArr xs) = indices (length xs)"
| "Object_keys (JBuffer b) = indices (length b)"
| "Object_keys v = []"

definition hex_digit :: "int \<Rightarrow> char" where
  "hex_digit d = (if d < 10 then digit_char d else char_of (of_char CHR ''a'' + (d - 10)))"

text \<open>The escapes of a JSON string literal (characters are bytes; ASCII text is meant).\<close>

definition quote_char :: "char \<Rightarrow> string" where
  "quote_char c =
     (if c = CHR 0x22 then [CHR 0x5C, CHR 0x22]
      else if c = CHR 0x5C then [CHR 0x5C, CHR 0x5C]
      else if c = CHR 0x08 then [CHR 0x5C, CHR ''b'']
      else if c = CHR 0x0C then [CHR 0x5C, CHR ''f'']
      else if c = CHR 0x0A then [CHR 0x5C, CHR ''n'']
      else if c = CHR 0x0D then [CHR 0x5C, CHR ''r'']
      else if c = CHR 0x09 then [CHR 0x5C, CHR ''t'']
      else if (of_char c :: int) < 32
        then [CHR 0x5C, CHR ''u'', CHR ''0'', CHR ''0'',
              hex_digit (of_char c div 16), hex_digit (of_char c mod 16)]
      else [c])"

definition quote :: "string \<Rightarrow> string" where
  "quote s = [CHR 0x22] @ concat (map quote_char s) @ [CHR 0x22]"

text \<open>
  \<open>JSON.stringify(v)\<close>: \<open>Inl\<close> when it throws, \<open>Inr None\<close> when it returns \<open>undefined\<close>,
  \<open>Inr (Some s)\<close> for the text \<open>s\<close>. An \<open>undefined\<close> array element prints as \<open>null\<close>; a
  property whose value is \<open>undefined\<close> is left out. A \<open>Buffer\<close> serialises through its
  \<open>toJSON\<close> as \<open>{"type":"Buffer","data":[...]}\<close>.
\<close>

fun stringify :: "json \<Rightarrow> exn + string option"
  and stringify_elems :: "json list \<Rightarrow> exn + string list"
  and stringify_props :: "(string \<times> json) list \<Rightarrow> exn + string list" where
  "stringify JUndefined = Inr None"
| "stringify JNull = Inr (Some ''null'')"
| "stringify (JBool b) = Inr (Some (if b then ''true'' else ''false''))"
| "stringify (JNum n) = Inr (Some (number_toString n))"
| "stringify (JStr s) = Inr (Some (quote s))"
| "stringify (JBigInt n) = Inl (Exn ''Do not know how to serialize a BigInt'' JUndefined)"
| "stringify (JBuffer b) =
     Inr (Some (''{'' @ quote ''type'' @ '':'' @ quote ''Buffer'' @ '','' @ quote ''data'' @ '':[''
                @ join '','' (map (\<lambda>c. decimal (of_char c)) b) @ '']}''))"
| "stringify (JArr xs) =
     (case stringify_elems xs of
        Inl e \<Rightarrow> Inl e
      | Inr ss \<Rightarrow> Inr (Some (''['' @ join '','' ss @ '']'')))"
| "stringify (JObj ps) =
     (case stringify_props ps of
        Inl e \<Rightarrow> Inl e
      | Inr ss \<Rightarrow> Inr (Some (''{'' @ join '','' ss @ ''}'')))"
| "stringify_elems [] = Inr []"
| "stringify_elems (x # xs) =
     (case stringify x of
        Inl e \<Rightarrow> Inl e
      | Inr s \<Rightarrow>
          (case stringify_elems xs of
             Inl e \<Rightarrow> Inl e
           | Inr ss \<Rightarrow> Inr ((case s of None \<Rightarrow> ''null'' | Some t \<Rightarrow> t) # ss)))"
| "stringify_props [] = Inr []"
| "stringify_props ((k, v) # ps) =
     (case stringify v of
        Inl e \<Rightarrow> Inl e
      | Inr s \<Rightarrow>
          (case stringify_props ps of
             Inl e \<Rightarrow> Inl e
           | Inr ss \<Rightarrow> Inr ((case s of None \<Rightarrow> ss | Some t \<Rightarrow> (quote k @ '':'' @ t) # ss))))"

text \<open>A template literal \<open>`${JSON.stringify(v)}`\<close> prints an \<open>undefined\<close> result as such.\<close>

definition template_of :: "string option \<Rightarrow> string" where
  "template_of r = (case r of None \<Rightarrow> ''undefined'' | Some s \<Rightarrow> s)"

section \<open>The registry of push sessions (mcp-session-manager)\<close>

text \<open>
  The transport handle of a push session is a Node \<open>ServerResponse\<close>. The model keeps what
  the sources read of it (\<open>closed\<close>, \<open>destroyed\<close>), the chunks written to it, and whether a
  \<open>write\<close> on it throws, which the environment decides.
\<close>

record ServerResponse =
  closed :: bool
  destroyed :: bool
  write_throws :: bool
  written :: "string list"

record McpSession =
  session_id :: string
  connection :: ServerResponse
  lastSeen :: int

text \<open>
  The module's \<open>sessions\<close> map. A JavaScript \<open>Map\<close> iterates in insertion order, so it is an
  association list with at most one entry per key; the operations below are \<open>get\<close>, \<open>has\<close>,
  \<open>set\<close> (in place for a present key, appended otherwise) and \<open>delete\<close>.
\<close>

type_synonym ('k, 'v) js_map = "('k \<times> 'v) list"

definition map_get :: "('k, 'v) js_map \<Rightarrow> 'k \<Rightarrow> 'v option" where
  "map_get m k = map_of m k"

definition map_has :: "('k, 'v) js_map \<Rightarrow> 'k \<Rightarrow> bool" where
  "map_has m k = (map_of m k \<noteq> None)"

fun map_set :: "('k, 'v) js_map \<Rightarrow> 'k \<Rightarrow> 'v \<Rightarrow> ('k, 'v) js_map" where
  "map_set [] k v = [(k, v)]"
| "map_set ((k', v') # m) k v = (if k' = k then (k, v) # m else (k', v') # map_set m k v)"

definition map_delete :: "('k, 'v) js_map \<Rightarrow> 'k \<Rightarrow> ('k, 'v) js_map" where
  "map_delete m k = filter (\<lambda>e. fst e \<noteq> k) m"

type_synonym registry = "(string, McpSession) js_map"

text \<open>\<open>getSession\<close>: the lookup refreshes \<open>lastSeen\<close>. The time \<open>now\<close> is what \<open>new Date()\<close> reads.\<close>

definition getSession :: "int \<Rightarrow> string \<Rightarrow> registry \<Rightarrow> McpSession option \<times> registry" where
  "getSession now sessionId sessions =
     (case map_get sessions sessionId of
        None \<Rightarrow> (None, sessions)
      | Some session \<Rightarrow>
          (let session' = session\<lparr>lastSeen := now\<rparr>
           in (Some session', map_set sessions sessionId session')))"

section \<open>The event broadcaster (mcp-event-emitter)\<close>

text \<open>
  The frame \<open>sendEventToClient\<close> builds: the \<open>event:\<close> line only for a non-empty event type,
  then the \<open>data:\<close> line and the blank line that ends the frame.
\<close>

definition eventString :: "string \<Rightarrow> string option \<Rightarrow> string" where
  "eventString eventType js =
     (if eventType \<noteq> [] then ''event: '' @ eventType @ [CHR 0x0A] else [])
     @ ''data: '' @ template_of js @ [CHR 0x0A, CHR 0x0A]"

text \<open>
  \<open>connection.write(chunk)\<close> on the session's transport: throws when the environment says
  so, appends the chunk otherwise.
\<close>

definition connection_write :: "string \<Rightarrow> string \<Rightarrow> registry \<Rightarrow> exn + registry" where
  "connection_write sessionId chunk sessions =
     (case map_get sessions sessionId of
        None \<Rightarrow> Inr sessions
      | Some session \<Rightarrow>
          if write_throws (connection session) then Inl (new_Error ''write failed'')
          else Inr (map_set sessions sessionId
                 (session\<lparr>connection := (connection session)
                     \<lparr>written := written (connection session) @ [chunk]\<rparr>\<rparr>)))"

text \<open>
  \<open>sendEventToClient\<close>. The result is \<open>Inl\<close> if the call throws and \<open>Inr\<close> of the returned
  boolean otherwise. The body of the source's \<open>try\<close> is \<open>send_try\<close>; the \<open>catch\<close> logs and
  returns \<open>false\<close>.
\<close>

definition send_try :: "string \<Rightarrow> string \<Rightarrow> json \<Rightarrow> registry \<Rightarrow> (exn + bool) \<times> registry" where
  "send_try sessionId eventType data sessions =
     (case stringify data of
        Inl e \<Rightarrow> (Inl e, sessions)
      | Inr js \<Rightarrow>
          (case connection_write sessionId (eventString eventType js) sessions of
             Inl e \<Rightarrow> (Inl e, sessions)
           | Inr sessions' \<Rightarrow> (Inr True, sessions')))"

definition sendEventToClient ::
  "int \<Rightarrow> string \<Rightarrow> string \<Rightarrow> json \<Rightarrow> registry \<Rightarrow> (exn + bool) \<times> registry" where
  "sendEventToClient now sessionId eventType data sessions =
     (case getSession now sessionId sessions of
        (None, sessions1) \<Rightarrow> (Inr False, sessions1)
      | (Some session, sessions1) \<Rightarrow>
          if closed (connection session) \<or> destroyed (connection session)
          then (Inr False, sessions1)
          else (case send_try sessionId eventType data sessions1 of
                  (Inl e, sessions2) \<Rightarrow> (Inr False, sessions2)
                | (Inr b, sessions2) \<Rightarrow> (Inr b, sessions2)))"

text \<open>
  The frame of the push transport as the interface section of the specification writes
  it: \<open>event: <eventType>\ndata: <JSON>\n\n\<close>.
\<close>

definition sse_frame :: "string \<Rightarrow> string \<Rightarrow> string" where
  "sse_frame eventType js =
     ''event: '' @ eventType @ [CHR 0x0A] @ ''data: '' @ js @ [CHR 0x0A, CHR 0x0A]"

text \<open>What a client has been sent: the chunks written to the transport of its session.\<close>

definition frames_of :: "registry \<Rightarrow> string \<Rightarrow> string list" where
  "frames_of sessions sessionId =
     (case map_get sessions sessionId of
        None \<Rightarrow> []
      | Some session \<Rightarrow> written (connection session))"

text \<open>The transport of a session can take a frame: the session exists and is neither closed nor destroyed.\<close>

definition transport_open :: "registry \<Rightarrow> string \<Rightarrow> bool" where
  "transport_open sessions sessionId =
     (case map_get sessions sessionId of
        None \<Rightarrow> False
      | Some session \<Rightarrow> \<not> closed (connection session) \<and> \<not> destroyed (connection session))"

definition write_fails :: "registry \<Rightarrow> string \<Rightarrow> bool" where
  "write_fails sessions sessionId =
     (case map_get sessions sessionId of
        None \<Rightarrow> False
      | Some session \<Rightarrow> write_throws (connection session))"


section \<open>The protocol-session manager (baileys-session-manager)\<close>

text \<open>
  The manager of the sources is the later of the two near-duplicate implementations, the
  one with \<open>retryCount\<close> and \<open>socketOptions\<close>. A session entry is a mutable object shared
  between the \<open>baileysSessions\<close> map and the closures of the event handlers and of the
  reconnection timers, so the entries live in a heap (a list indexed by reference) and the
  map holds references. A socket is the handle the factory \<open>makeWASocket\<close> returned: the
  model records the configuration it was made with and what its handlers captured.
\<close>

datatype auth_state = FreshCreds | PersistedCreds | OptionCreds json

record BaileysSession =
  session_mcpSessionId :: string
  socket :: nat
  stateDir :: string
  creationTime :: int
  lastActivityTime :: int
  qrCode :: "string option"
  socketOptions :: json
  retryCount :: int

record BaileysSocket =
  config_auth :: auth_state
  config_options :: json
  handler_mcpSessionId :: string
  handler_session :: nat
  handler_callbacks :: nat

text \<open>
  What the manager does to the outside, in order: the caller's callbacks (the first
  argument names the \<open>eventCallbacks\<close> object they belong to) and the calls on a socket.
\<close>

datatype effect =
    OnQR nat string
  | OnConnected nat
  | OnDisconnected nat json string
  | OnMessage nat json string
  | SocketLogout nat
  | SocketEnd nat

text \<open>A pending \<open>setTimeout\<close> of the restart branch, with what its closure captured.\<close>

record timer =
  timer_mcpSessionId :: string
  timer_callbacks :: nat
  timer_currentSession :: nat

record world =
  baileysSessions :: "(string, nat) js_map"
  heap :: "BaileysSession list"
  sockets :: "BaileysSocket list"
  timers :: "timer list"
  dirs :: "string list"
  factory_calls :: nat
  trace :: "effect list"

text \<open>
  The behaviour of the protocol library and of the file system, which the manager only
  calls: the constant \<open>DisconnectReason.loggedOut\<close>, whether loading the credentials of a
  directory throws, whether the n-th call of the factory throws, whether \<open>logout()\<close> rejects
  and \<open>end()\<close> throws on a socket, whether removing a directory fails, and the \<open>ws\<close>
  property of a socket (absent, or its \<open>readyState\<close> and its \<open>OPEN\<close>).
\<close>

record env =
  AUTH_STATE_BASE_DIR :: string
  DisconnectReason_loggedOut :: int
  useMultiFileAuthState_throws :: "string \<Rightarrow> bool"
  makeWASocket_throws :: "nat \<Rightarrow> bool"
  logout_rejects :: "nat \<Rightarrow> bool"
  end_throws :: "nat \<Rightarrow> bool"
  rm_fails :: "string \<Rightarrow> bool"
  ws :: "nat \<Rightarrow> (nat \<times> nat) option"

text \<open>\<open>path.join(a, b)\<close> for a directory and one more segment (normalisation is not modelled).\<close>

definition path_join :: "string \<Rightarrow> string \<Rightarrow> string" where
  "path_join a b = a @ ''/'' @ b"

text \<open>\<open>sock.ws?.readyState !== sock.ws?.OPEN\<close>: false when the socket has no \<open>ws\<close>.\<close>

definition ws_not_open :: "env \<Rightarrow> nat \<Rightarrow> bool" where
  "ws_not_open e s = (case ws e s of None \<Rightarrow> False | Some (readyState, OPEN) \<Rightarrow> readyState \<noteq> OPEN)"

definition update_session :: "nat \<Rightarrow> (BaileysSession \<Rightarrow> BaileysSession) \<Rightarrow> world \<Rightarrow> world" where
  "update_session r f w = w\<lparr>heap := (heap w)[r := f (heap w ! r)]\<rparr>"

definition emit :: "effect \<Rightarrow> world \<Rightarrow> world" where
  "emit x w = w\<lparr>trace := trace w @ [x]\<rparr>"

text \<open>
  The configuration \<open>{ auth: state, ..., ...options }\<close>: an \<open>auth\<close> property of the
  caller's options replaces the loaded credential state.
\<close>

definition socketConfig_auth :: "auth_state \<Rightarrow> json \<Rightarrow> auth_state" where
  "socketConfig_auth loaded options =
     (case options of
        JObj ps \<Rightarrow> (case map_of ps ''auth'' of Some v \<Rightarrow> OptionCreds v | None \<Rightarrow> loaded)
      | _ \<Rightarrow> loaded)"

text \<open>
  The replay of the existing-entry branch:
  \<open>if (existingSession.qrCode && ws?.readyState !== ws?.OPEN) eventCallbacks.onQR(qrCode)\<close>.
\<close>

definition replay_pending_qr :: "env \<Rightarrow> nat \<Rightarrow> BaileysSession \<Rightarrow> effect list" where
  "replay_pending_qr e eventCallbacks existingSession =
     (case qrCode existingSession of
        Some q \<Rightarrow>
          if q \<noteq> [] \<and> ws_not_open e (socket existingSession)
          then [OnQR eventCallbacks q] else []
      | None \<Rightarrow> [])"

text \<open>
  \<open>getOrCreateBaileysSession\<close>, run to completion in one step: its only suspension, the
  credential load, lies between the map test and the map write, and the model does not
  interleave other events there. \<open>Inl\<close> is a rejected promise. The credential load of the
  library creates the directory when it is absent and then yields an empty state.
\<close>

definition getOrCreateBaileysSession ::
  "env \<Rightarrow> int \<Rightarrow> string \<Rightarrow> nat \<Rightarrow> json \<Rightarrow> world \<Rightarrow> (exn + nat) \<times> world" where
  "getOrCreateBaileysSession e now mcpSessionId eventCallbacks options w =
     (case map_get (baileysSessions w) mcpSessionId of
        Some r \<Rightarrow>
          (let w1 = update_session r (\<lambda>x. x\<lparr>lastActivityTime := now\<rparr>) w;
               existingSession = heap w1 ! r;
               w2 = w1\<lparr>trace := trace w1 @ replay_pending_qr e eventCallbacks existingSession\<rparr>
           in (Inr (socket existingSession), w2))
      | None \<Rightarrow>
          (let dir = path_join (AUTH_STATE_BASE_DIR e) (''session_'' @ mcpSessionId)
           in if useMultiFileAuthState_throws e dir
              then (Inl (new_Error ''useMultiFileAuthState failed''), w)
              else
                (let state = (if dir \<in> set (dirs w) then PersistedCreds else FreshCreds);
                     w1 = w\<lparr>dirs := (if dir \<in> set (dirs w) then dirs w else dirs w @ [dir]),
                             factory_calls := factory_calls w + 1\<rparr>
                 in if makeWASocket_throws e (factory_calls w)
                    then (Inl (new_Error ''makeWASocket failed''), w1)
                    else
                      (let sock = length (sockets w1);
                           r = length (heap w1);
                           newBaileysSession =
                             \<lparr>session_mcpSessionId = mcpSessionId, socket = sock, stateDir = dir,
                              creationTime = now, lastActivityTime = now, qrCode = None,
                              socketOptions = options, retryCount = 0\<rparr>
                       in (Inr sock,
                           w1\<lparr>sockets := sockets w1 @
                                  [\<lparr>config_auth = socketConfig_auth state options,
                                    config_options = options,
                                    handler_mcpSessionId = mcpSessionId,
                                    handler_session = r,
                                    handler_callbacks = eventCallbacks\<rparr>],
                               heap := heap w1 @ [newBaileysSession],
                               baileysSessions := map_set (baileysSessions w1) mcpSessionId r\<rparr>)))))"

definition getBaileysSocket :: "int \<Rightarrow> string \<Rightarrow> world \<Rightarrow> nat option \<times> world" where
  "getBaileysSocket now mcpSessionId w =
     (case map_get (baileysSessions w) mcpSessionId of
        Some r \<Rightarrow>
          (let w1 = update_session r (\<lambda>x. x\<lparr>lastActivityTime := now\<rparr>) w
           in (Some (socket (heap w1 ! r)), w1))
      | None \<Rightarrow> (None, w))"

text \<open>
  \<open>removeBaileysSession\<close>, run to completion in one step. The result holds the error of a
  rejected promise: only \<open>end()\<close> in the \<open>catch\<close> of the failed \<open>logout()\<close> is outside every
  \<open>try\<close>. A failed removal of the directory is caught and logged.
\<close>

definition removeBaileysSession :: "env \<Rightarrow> string \<Rightarrow> bool \<Rightarrow> world \<Rightarrow> exn option \<times> world" where
  "removeBaileysSession e mcpSessionId deleteAuthState w =
     (case map_get (baileysSessions w) mcpSessionId of
        None \<Rightarrow> (None, w)
      | Some r \<Rightarrow>
          (let session = heap w ! r;
               w1 = emit (SocketLogout (socket session)) w
           in if logout_rejects e (socket session) \<and> end_throws e (socket session)
              then (Some (new_Error ''end failed''), emit (SocketEnd (socket session)) w1)
              else
                (let w2 = (if logout_rejects e (socket session)
                           then emit (SocketEnd (socket session)) w1 else w1);
                     w3 = (if deleteAuthState \<and> \<not> rm_fails e (stateDir session)
                           then w2\<lparr>dirs := removeAll (stateDir session) (dirs w2)\<rparr> else w2)
                 in (None, w3\<lparr>baileysSessions := map_delete (baileysSessions w3) mcpSessionId\<rparr>))))"

text \<open>
  \<open>cleanupInactiveBaileysSessions\<close>: the loop over the entries of the map, each removal
  awaited; a rejected removal ends the loop, since the loop has no \<open>try\<close>.
\<close>

fun cleanup_loop ::
  "env \<Rightarrow> int \<Rightarrow> int \<Rightarrow> (string \<times> nat) list \<Rightarrow> world \<Rightarrow> exn option \<times> world" where
  "cleanup_loop e now maxIdleTimeMs [] w = (None, w)"
| "cleanup_loop e now maxIdleTimeMs ((mcpSessionId, r) # entries) w =
     (if now - lastActivityTime (heap w ! r) > maxIdleTimeMs
      then (case removeBaileysSession e mcpSessionId False w of
              (Some err, w') \<Rightarrow> (Some err, w')
            | (None, w') \<Rightarrow> cleanup_loop e now maxIdleTimeMs entries w')
      else cleanup_loop e now maxIdleTimeMs entries w)"

definition cleanupInactiveBaileysSessions :: "env \<Rightarrow> int \<Rightarrow> int \<Rightarrow> world \<Rightarrow> exn option \<times> world" where
  "cleanupInactiveBaileysSessions e now maxIdleTimeMs w =
     cleanup_loop e now maxIdleTimeMs (baileysSessions w) w"

definition default_maxIdleTimeMs :: int where
  "default_maxIdleTimeMs = 30 * 60 * 1000"


subsection \<open>The handlers of the socket's events\<close>

text \<open>
  A \<open>connection.update\<close> event: the \<open>connection\<close> field (absent, or one of the library's
  states), \<open>lastDisconnect\<close> with its error (a \<open>Boom\<close>: \<open>message\<close> and \<open>output.statusCode\<close>)
  and its \<open>reason\<close>, and the \<open>qr\<close> string.
\<close>

datatype connection_state = ConnOpen | ConnClose | ConnConnecting

record Boom =
  boom_message :: string
  output_statusCode :: "int option"

record lastDisconnect =
  ld_error :: "Boom option"
  ld_reason :: json

record ConnectionUpdate =
  update_connection :: "connection_state option"
  update_lastDisconnect :: "lastDisconnect option"
  update_qr :: "string option"

definition MAX_RETRIES :: int where
  "MAX_RETRIES = 3"

definition RETRY_DELAY_MS :: int where
  "RETRY_DELAY_MS = 3000"

definition isLoggedOut :: "env \<Rightarrow> Boom option \<Rightarrow> bool" where
  "isLoggedOut e boomError =
     (case boomError of
        None \<Rightarrow> False
      | Some b \<Rightarrow> output_statusCode b = Some (DisconnectReason_loggedOut e))"

definition isRestartRequired :: "Boom option \<Rightarrow> bool" where
  "isRestartRequired boomError =
     (case boomError of
        None \<Rightarrow> False
      | Some b \<Rightarrow>
          sublist ''Stream Errored (restart required)'' (boom_message b)
          \<or> output_statusCode b = Some 515)"

text \<open>The \<open>if (qr)\<close> part: an empty string is falsy and is not stored.\<close>

definition on_qr :: "nat \<Rightarrow> nat \<Rightarrow> string option \<Rightarrow> world \<Rightarrow> world" where
  "on_qr newBaileysSession eventCallbacks qr w =
     (case qr of
        None \<Rightarrow> w
      | Some q \<Rightarrow>
          if q \<noteq> []
          then emit (OnQR eventCallbacks q)
                 (update_session newBaileysSession (\<lambda>x. x\<lparr>qrCode := Some q\<rparr>) w)
          else w)"

text \<open>
  The \<open>close\<close> branch. The removal after a logout is not awaited: the model runs it to
  completion within the step and drops its rejection. The restart branch arms a timer;
  all timers have the same delay, so they fire in the order they were armed.
\<close>

definition restart_required_branch :: "string \<Rightarrow> nat \<Rightarrow> world \<Rightarrow> world" where
  "restart_required_branch mcpSessionId eventCallbacks w =
     (case map_get (baileysSessions w) mcpSessionId of
        Some currentSession \<Rightarrow>
          if retryCount (heap w ! currentSession) < MAX_RETRIES
          then
            (let w1 = update_session currentSession
                        (\<lambda>x. x\<lparr>retryCount := retryCount x + 1\<rparr>) w
             in w1\<lparr>baileysSessions :=
                      map_set (baileysSessions w1) mcpSessionId currentSession,
                    timers := timers w1 @
                      [\<lparr>timer_mcpSessionId = mcpSessionId,
                        timer_callbacks = eventCallbacks,
                        timer_currentSession = currentSession\<rparr>]\<rparr>)
          else w
      | None \<Rightarrow> w)"

definition on_close :: "env \<Rightarrow> string \<Rightarrow> nat \<Rightarrow> lastDisconnect option \<Rightarrow> world \<Rightarrow> world" where
  "on_close e mcpSessionId eventCallbacks ld w =
     (let boomError = (case ld of None \<Rightarrow> None | Some l \<Rightarrow> ld_error l);
          reason = (case ld of None \<Rightarrow> JUndefined | Some l \<Rightarrow> ld_reason l);
          w1 = emit (OnDisconnected eventCallbacks reason mcpSessionId) w
      in if isLoggedOut e boomError
         then snd (removeBaileysSession e mcpSessionId True w1)
         else if isRestartRequired boomError
         then restart_required_branch mcpSessionId eventCallbacks w1
         else w1)"

definition on_open :: "string \<Rightarrow> nat \<Rightarrow> nat \<Rightarrow> world \<Rightarrow> world" where
  "on_open mcpSessionId newBaileysSession eventCallbacks w =
     (let w1 = (case map_get (baileysSessions w) mcpSessionId of
                  Some currentSession \<Rightarrow>
                    (let w' = update_session currentSession (\<lambda>x. x\<lparr>retryCount := 0\<rparr>) w
                     in w'\<lparr>baileysSessions :=
                              map_set (baileysSessions w') mcpSessionId currentSession\<rparr>)
                | None \<Rightarrow> w);
          w2 = update_session newBaileysSession (\<lambda>x. x\<lparr>qrCode := None\<rparr>) w1;
          w3 = (case map_get (baileysSessions w2) mcpSessionId of
                  Some sessionToClearQR \<Rightarrow>
                    update_session sessionToClearQR (\<lambda>x. x\<lparr>qrCode := None\<rparr>) w2
                | None \<Rightarrow> w2)
      in emit (OnConnected eventCallbacks) w3)"

text \<open>The handler of \<open>connection.update\<close> that socket \<open>sock\<close> was given at its creation.\<close>

definition connection_update :: "env \<Rightarrow> int \<Rightarrow> nat \<Rightarrow> ConnectionUpdate \<Rightarrow> world \<Rightarrow> world" where
  "connection_update e now sock update w =
     (let h = sockets w ! sock;
          w1 = update_session (handler_session h) (\<lambda>x. x\<lparr>lastActivityTime := now\<rparr>) w;
          w2 = on_qr (handler_session h) (handler_callbacks h) (update_qr update) w1
      in case update_connection update of
           Some ConnClose \<Rightarrow>
             on_close e (handler_mcpSessionId h) (handler_callbacks h)
               (update_lastDisconnect update) w2
         | Some ConnOpen \<Rightarrow>
             on_open (handler_mcpSessionId h) (handler_session h) (handler_callbacks h) w2
         | _ \<Rightarrow> w2)"

text \<open>
  The callback of the restart timer armed first: it deletes the map entry and calls
  \<open>getOrCreateBaileysSession\<close> again with the options of the entry it captured. Both
  outcomes of that promise are only logged.
\<close>

definition fire_timer :: "env \<Rightarrow> int \<Rightarrow> world \<Rightarrow> world" where
  "fire_timer e now w =
     (case timers w of
        [] \<Rightarrow> w
      | t # ts \<Rightarrow>
          (let w1 = w\<lparr>timers := ts,
                      baileysSessions := map_delete (baileysSessions w) (timer_mcpSessionId t)\<rparr>
           in snd (getOrCreateBaileysSession e now (timer_mcpSessionId t) (timer_callbacks t)
                     (socketOptions (heap w1 ! timer_currentSession t)) w1)))"

text \<open>
  Property read \<open>o.k\<close> without \<open>?.\<close>: a \<open>TypeError\<close> on \<open>undefined\<close> and \<open>null\<close>.
\<close>

definition read_prop :: "json \<Rightarrow> string \<Rightarrow> exn + json" where
  "read_prop v k =
     (if v = JUndefined \<or> v = JNull
      then Inl (new_Error (''Cannot read properties of undefined (reading '' @ k @ '')''))
      else Inr (jget v k))"

text \<open>
  The handler of \<open>messages.upsert\<close>: the \<open>forEach\<close> over the batch. A message is handed to
  \<open>onMessage\<close> when \<open>msg.message && !msg.key.fromMe\<close>; a property read on a missing message
  or key throws out of the loop.
\<close>

fun upsert_forEach :: "nat \<Rightarrow> string \<Rightarrow> json list \<Rightarrow> world \<Rightarrow> exn option \<times> world" where
  "upsert_forEach eventCallbacks mcpSessionId [] w = (None, w)"
| "upsert_forEach eventCallbacks mcpSessionId (msg # msgs) w =
     (case read_prop msg ''message'' of
        Inl err \<Rightarrow> (Some err, w)
      | Inr content \<Rightarrow>
          if truthy content
          then (case read_prop (jget msg ''key'') ''fromMe'' of
                  Inl err \<Rightarrow> (Some err, w)
                | Inr fromMe \<Rightarrow>
                    if \<not> truthy fromMe
                    then upsert_forEach eventCallbacks mcpSessionId msgs
                           (emit (OnMessage eventCallbacks msg mcpSessionId) w)
                    else upsert_forEach eventCallbacks mcpSessionId msgs w)
          else upsert_forEach eventCallbacks mcpSessionId msgs w)"

definition messages_upsert :: "nat \<Rightarrow> json list option \<Rightarrow> world \<Rightarrow> exn option \<times> world" where
  "messages_upsert sock messages w =
     (case messages of
        None \<Rightarrow> (None, w)
      | Some msgs \<Rightarrow>
          if length msgs > 0
          then upsert_forEach (handler_callbacks (sockets w ! sock))
                 (handler_mcpSessionId (sockets w ! sock)) msgs w
          else (None, w))"

text \<open>
  The test \<open>msg.message && !msg.key.fromMe\<close> of the \<open>messages.upsert\<close> loop where no read
  throws, and the messages on which a read throws: a missing message, or one with content
  and no key.
\<close>

definition passes_filter :: "json \<Rightarrow> bool" where
  "passes_filter msg =
     (truthy (jget msg ''message'') \<and> \<not> truthy (jget (jget msg ''key'') ''fromMe''))"

definition throws_at :: "json \<Rightarrow> bool" where
  "throws_at msg =
     (is_nullish msg \<or> (truthy (jget msg ''message'') \<and> is_nullish (jget msg ''key'')))"

text \<open>
  The states the manager can be in keep every reference inside the heap, and every socket
  has the session object that was created with it.
\<close>

definition wf_world :: "world \<Rightarrow> bool" where
  "wf_world w =
     (length (sockets w) = length (heap w)
      \<and> list_all (\<lambda>(k, r). r < length (heap w)) (baileysSessions w)
      \<and> list_all (\<lambda>h. handler_session h < length (heap w)) (sockets w)
      \<and> list_all (\<lambda>t. timer_currentSession t < length (heap w)) (timers w)
      \<and> list_all (\<lambda>i. socket (heap w ! i) = i \<and> handler_session (sockets w ! i) = i)
           [0..<length (heap w)])"

definition session_of :: "world \<Rightarrow> string \<Rightarrow> BaileysSession option" where
  "session_of w mcpSessionId =
     (case map_get (baileysSessions w) mcpSessionId of
        None \<Rightarrow> None
      | Some r \<Rightarrow> Some (heap w ! r))"

definition initial_world :: world where
  "initial_world =
     \<lparr>baileysSessions = [], heap = [], sockets = [], timers = [], dirs = [],
      factory_calls = 0, trace = []\<rparr>"

text \<open>
  The retry counts of all session objects, the bounds the close handler is meant to keep
  them in, and the error of an update's \<open>lastDisconnect\<close>, as the close handler reads it.
\<close>

definition retry_counts :: "world \<Rightarrow> int list" where
  "retry_counts w = map retryCount (heap w)"

definition retry_in_range :: "world \<Rightarrow> bool" where
  "retry_in_range w = list_all (\<lambda>n. 0 \<le> n \<and> n \<le> MAX_RETRIES) (retry_counts w)"

definition boomError_of :: "ConnectionUpdate \<Rightarrow> Boom option" where
  "boomError_of u = (case update_lastDisconnect u of None \<Rightarrow> None | Some l \<Rightarrow> ld_error l)"

section \<open>The media handler (media-handler)\<close>

text \<open>
  What \<open>downloadAndProcessMedia\<close> and the adapter call outside the sources: the directory
  \<open>TEMP_MEDIA_DIR\<close>, the identifier \<open>uuidv4()\<close> draws, the library's \<open>downloadMediaMessage\<close>,
  whether \<open>writeFile\<close> throws on a path, and \<open>toNumber()\<close> of a timestamp that is not a
  number (a \<open>Long\<close>; \<open>Inl\<close> where the value has no such method).
\<close>

record media_env =
  TEMP_MEDIA_DIR :: string
  uuidv4 :: string
  downloadMediaMessage :: "json \<Rightarrow> exn + json"
  writeFile_throws :: "string \<Rightarrow> bool"
  toNumber :: "json \<Rightarrow> exn + int"

text \<open>
  The first part of \<open>downloadAndProcessMedia\<close>: the first media sub-message that is present
  decides \<open>messageType\<close>, \<open>mediaKey\<close>, \<open>url\<close>, \<open>caption\<close> and \<open>originalFileName\<close>.
\<close>

record media_fields =
  messageType :: string
  mediaKey :: json
  url :: json
  caption :: json
  originalFileName :: json

definition media_fields_of :: "media_env \<Rightarrow> json \<Rightarrow> media_fields option" where
  "media_fields_of me message =
     (let m = jget message ''message'' in
      if truthy (jget m ''imageMessage'') then
        Some \<lparr>messageType = ''image'',
              mediaKey = jget (jget m ''imageMessage'') ''mediaKey'',
              url = jget (jget m ''imageMessage'') ''url'',
              caption = jget (jget m ''imageMessage'') ''caption'',
              originalFileName =
                js_or (jget (jget m ''imageMessage'') ''fileName'') (JStr (uuidv4 me @ ''.jpg''))\<rparr>
      else if truthy (jget m ''videoMessage'') then
        Some \<lparr>messageType = ''video'',
              mediaKey = jget (jget m ''videoMessage'') ''mediaKey'',
              url = jget (jget m ''videoMessage'') ''url'',
              caption = jget (jget m ''videoMessage'') ''caption'',
              originalFileName =
                js_or (jget (jget m ''videoMessage'') ''fileName'') (JStr (uuidv4 me @ ''.mp4''))\<rparr>
      else if truthy (jget m ''audioMessage'') then
        Some \<lparr>messageType = ''audio'',
              mediaKey = jget (jget m ''audioMessage'') ''mediaKey'',
              url = jget (jget m ''audioMessage'') ''url'',
              caption = JUndefined,
              originalFileName = JStr (uuidv4 me @ ''.ogg'')\<rparr>
      else if truthy (jget m ''documentMessage'') then
        Some \<lparr>messageType = ''document'',
              mediaKey = jget (jget m ''documentMessage'') ''mediaKey'',
              url = jget (jget m ''documentMessage'') ''url'',
              caption = jget (jget m ''documentMessage'') ''caption'',
              originalFileName =
                js_or (jget (jget m ''documentMessage'') ''fileName'') (JStr (uuidv4 me @ ''.bin''))\<rparr>
      else if truthy (jget m ''stickerMessage'') then
        Some \<lparr>messageType = ''sticker'',
              mediaKey = jget (jget m ''stickerMessage'') ''mediaKey'',
              url = jget (jget m ''stickerMessage'') ''url'',
              caption = JUndefined,
              originalFileName = JStr (uuidv4 me @ ''.webp'')\<rparr>
      else None)"

text \<open>
  The body of the \<open>try\<close> of \<open>downloadAndProcessMedia\<close>: the download, the test that it gave a
  buffer, and the temporary file or the in-memory data. \<open>path.join\<close> throws on a file name
  that is not a string. (The alternative name after \<open>originalFileName ||\<close> is never used:
  \<open>originalFileName\<close> is truthy here.)
\<close>

definition download_try :: "media_env \<Rightarrow> json \<Rightarrow> bool \<Rightarrow> media_fields \<Rightarrow> json \<Rightarrow> exn + json" where
  "download_try me message storeTemporarily f mimeType =
     (case downloadMediaMessage me message of
        Inl err \<Rightarrow> Inl err
      | Inr downloadedMedia \<Rightarrow>
          (case downloadedMedia of
             JBuffer buffer \<Rightarrow>
               (let processedInfo =
                      [(''type'', JStr (messageType f)), (''mimeType'', mimeType),
                       (''caption'', caption f), (''fileName'', originalFileName f)]
                in if storeTemporarily
                   then (case originalFileName f of
                           JStr name \<Rightarrow>
                             (let tempFilePath = path_join (TEMP_MEDIA_DIR me) name
                              in if writeFile_throws me tempFilePath
                                 then Inl (new_Error ''writeFile failed'')
                                 else Inr (JObj (jset processedInfo ''filePath'' (JStr tempFilePath))))
                         | _ \<Rightarrow> Inl (new_Error ''The path argument must be of type string''))
                   else Inr (JObj (jset processedInfo ''data'' (JBuffer buffer))))
           | _ \<Rightarrow> Inl (new_Error ''Downloaded media is not a Buffer as expected.'')))"

text \<open>\<open>downloadAndProcessMedia\<close>: \<open>JNull\<close> is the result \<open>null\<close>, an object the \<open>ProcessedMediaInfo\<close>.\<close>

definition downloadAndProcessMedia :: "media_env \<Rightarrow> json \<Rightarrow> bool \<Rightarrow> json" where
  "downloadAndProcessMedia me message storeTemporarily =
     (case media_fields_of me message of
        None \<Rightarrow> JNull
      | Some f \<Rightarrow>
          if \<not> truthy (mediaKey f) \<or> \<not> truthy (url f)
          then JObj [(''type'', js_or (JStr (messageType f)) (JStr ''unknown'')),
                     (''mimeType'', JStr ''''),
                     (''error'', JStr ''Media key or URL missing from Baileys message.'')]
          else
            (let mimeType =
                   js_or (jget (jget (jget message ''message'') (messageType f @ ''Message''))
                            ''mimetype'') (JStr '''')
             in case download_try me message storeTemporarily f mimeType of
                  Inr processedInfo \<Rightarrow> processedInfo
                | Inl err \<Rightarrow>
                    JObj [(''type'', JStr (messageType f)), (''mimeType'', mimeType),
                          (''fileName'', originalFileName f),
                          (''error'', JStr (''Failed to download/process media: '' @ exn_message err))]))"

section \<open>The event adapter (baileys-to-mcp adapter)\<close>

text \<open>
  The timestamp of the payload: the message's own when it is truthy (a number as it is,
  anything else through \<open>toNumber()\<close>), the current time in seconds otherwise.
\<close>

definition payload_timestamp :: "media_env \<Rightarrow> int \<Rightarrow> json \<Rightarrow> exn + json" where
  "payload_timestamp me now message =
     (let t = jget message ''messageTimestamp'' in
      if truthy t
      then (case t of
              JNum n \<Rightarrow> Inr (JNum n)
            | _ \<Rightarrow> (case toNumber me t of Inl err \<Rightarrow> Inl err | Inr n \<Rightarrow> Inr (JNum n)))
      else Inr (JNum (now div 1000)))"

text \<open>
  \<open>contacts?.map(c => ({ displayName: c.displayName, vcard: c.vcard }))\<close>: \<open>undefined\<close> for a
  missing list, a \<open>TypeError\<close> for a missing element and for a value that has no \<open>map\<close>; a
  buffer maps to a buffer of zeros.
\<close>

fun map_contacts :: "json list \<Rightarrow> exn + json list" where
  "map_contacts [] = Inr []"
| "map_contacts (c # cs) =
     (case read_prop c ''displayName'' of
        Inl err \<Rightarrow> Inl err
      | Inr displayName \<Rightarrow>
          (case map_contacts cs of
             Inl err \<Rightarrow> Inl err
           | Inr rest \<Rightarrow>
               Inr (JObj [(''displayName'', displayName), (''vcard'', jget c ''vcard'')] # rest)))"

definition contacts_of :: "json \<Rightarrow> exn + json" where
  "contacts_of contacts =
     (case contacts of
        JUndefined \<Rightarrow> Inr JUndefined
      | JNull \<Rightarrow> Inr JUndefined
      | JArr cs \<Rightarrow> (case map_contacts cs of Inl err \<Rightarrow> Inl err | Inr xs \<Rightarrow> Inr (JArr xs))
      | JBuffer b \<Rightarrow> Inr (JBuffer (map (\<lambda>c. CHR 0x00) b))
      | _ \<Rightarrow> Inl (new_Error ''contacts.map is not a function''))"

text \<open>
  The media branch of the adapter: the payload gets the \<open>media\<close> object, with the path of
  the temporary file as \<open>_serverFilePath\<close>, the type of the media information, and the
  caption as text when no text is set.
\<close>

definition media_branch :: "media_env \<Rightarrow> json \<Rightarrow> (string \<times> json) list \<Rightarrow> (string \<times> json) list" where
  "media_branch me message payload =
     (let p1 = jset payload ''type'' (JStr ''media'');
          mediaInfo = downloadAndProcessMedia me message True
      in if truthy mediaInfo
         then
           (let p2 = jset p1 ''media''
                  (JObj [(''type'', jget mediaInfo ''type''),
                         (''mimeType'', jget mediaInfo ''mimeType''),
                         (''caption'', jget mediaInfo ''caption''),
                         (''fileName'', jget mediaInfo ''fileName''),
                         (''_serverFilePath'', jget mediaInfo ''filePath''),
                         (''error'', jget mediaInfo ''error'')]);
                p3 = jset p2 ''type'' (js_or (jget mediaInfo ''type'') (JStr ''media''))
            in if truthy (jget mediaInfo ''caption'') \<and> \<not> truthy (jget (JObj p3) ''text'')
               then jset p3 ''text'' (jget mediaInfo ''caption'') else p3)
         else jset p1 ''media'' (JObj [(''error'', JStr ''Failed to process media.'')]))"

text \<open>
  The payload \<open>handleNewBaileysMessage\<close> builds: the first reads of \<open>message.key\<close> throw on a
  missing message or key; then the chain of tests on the sub-messages, first match wins.
\<close>

definition is_media :: "json \<Rightarrow> bool" where
  "is_media m =
     (truthy (jget m ''imageMessage'') \<or> truthy (jget m ''videoMessage'')
      \<or> truthy (jget m ''audioMessage'') \<or> truthy (jget m ''documentMessage'')
      \<or> truthy (jget m ''stickerMessage''))"

definition mcpMessagePayload :: "media_env \<Rightarrow> int \<Rightarrow> json \<Rightarrow> exn + json" where
  "mcpMessagePayload me now message =
     (case read_prop message ''key'' of
        Inl err \<Rightarrow> Inl err
      | Inr key \<Rightarrow>
     (case read_prop key ''id'' of
        Inl err \<Rightarrow> Inl err
      | Inr key_id \<Rightarrow>
     (case payload_timestamp me now message of
        Inl err \<Rightarrow> Inl err
      | Inr timestamp \<Rightarrow>
          (let payload =
                 [(''id'', key_id), (''from'', jget key ''remoteJid''),
                  (''participant'', jget key ''participant''), (''timestamp'', timestamp),
                  (''type'', JStr ''text''), (''baileysMessage'', message)];
               m = jget message ''message''
           in if truthy (jget m ''conversation'') then
                Inr (JObj (jset (jset payload ''type'' (JStr ''text''))
                             ''text'' (jget m ''conversation'')))
              else if truthy (jget m ''extendedTextMessage'') then
                Inr (JObj (jset (jset payload ''type'' (JStr ''text''))
                             ''text'' (jget (jget m ''extendedTextMessage'') ''text'')))
              else if is_media m then
                Inr (JObj (media_branch me message payload))
              else if truthy (jget m ''reactionMessage'') then
                Inr (JObj (jset (jset payload ''type'' (JStr ''reaction'')) ''reaction''
                       (JObj [(''text'', jget (jget m ''reactionMessage'') ''text''),
                              (''targetMessageId'',
                                 jget (jget (jget m ''reactionMessage'') ''key'') ''id'')])))
              else if truthy (jget m ''locationMessage'') then
                Inr (JObj (jset (jset payload ''type'' (JStr ''location'')) ''location''
                       (JObj [(''degreesLatitude'',
                                 jget (jget m ''locationMessage'') ''degreesLatitude''),
                              (''degreesLongitude'',
                                 jget (jget m ''locationMessage'') ''degreesLongitude''),
                              (''name'', jget (jget m ''locationMessage'') ''name''),
                              (''address'', jget (jget m ''locationMessage'') ''address'')])))
              else if truthy (jget m ''contactMessage'') then
                Inr (JObj (jset (jset payload ''type'' (JStr ''contact'')) ''contact''
                       (JObj [(''displayName'', jget (jget m ''contactMessage'') ''displayName''),
                              (''vcard'', jget (jget m ''contactMessage'') ''vcard'')])))
              else if truthy (jget m ''contactsArrayMessage'') then
                (case contacts_of (jget (jget m ''contactsArrayMessage'') ''contacts'') of
                   Inl err \<Rightarrow> Inl err
                 | Inr contacts \<Rightarrow>
                     Inr (JObj (jset (jset payload ''type'' (JStr ''contacts_array''))
                                  ''contacts'' contacts)))
              else
                (let messageKeys = (if truthy m then join '', '' (Object_keys m) else ''null'')
                 in Inr (JObj (jset (jset payload ''type'' (JStr ''unknown'')) ''text''
                      (JStr (''Received an unhandled message type. Content keys: ''
                             @ messageKeys)))))))))"

text \<open>
  \<open>handleNewBaileysMessage\<close>: the payload is forwarded, as it is, to \<open>sendEventToClient\<close>.
  The result holds the error of a rejected promise.
\<close>

definition handleNewBaileysMessage ::
  "media_env \<Rightarrow> int \<Rightarrow> string \<Rightarrow> json \<Rightarrow> registry \<Rightarrow> exn option \<times> registry" where
  "handleNewBaileysMessage me now mcpSessionId message sessions =
     (case mcpMessagePayload me now message of
        Inl err \<Rightarrow> (Some err, sessions)
      | Inr payload \<Rightarrow>
          (None, snd (sendEventToClient now mcpSessionId ''baileys_new_message'' payload sessions)))"

section \<open>The core's message callback (core/baileys)\<close>

text \<open>
  A call of \<open>sendEventToClient\<close>: the session id, the event type and the payload. The
  \<open>onMessage\<close> callback that \<open>initializeBaileysForMcpSession\<close> hands to the manager forwards
  the raw message as a \<open>baileys_new_message\<close> event; \<open>message_events\<close> are the events that
  callback sends for the \<open>onMessage\<close> calls of a trace.
\<close>

type_synonym client_event = "string \<times> string \<times> json"

definition core_onMessage :: "json \<Rightarrow> string \<Rightarrow> client_event" where
  "core_onMessage msg currentMcpSessionId =
     (currentMcpSessionId, ''baileys_new_message'', JObj [(''message'', msg)])"

fun message_events :: "effect list \<Rightarrow> client_event list" where
  "message_events [] = []"
| "message_events (OnMessage cb msg k # xs) = core_onMessage msg k # message_events xs"
| "message_events (x # xs) = message_events xs"

section \<open>Sending (core/baileys, media-handler, mcp-message-handler)\<close>

text \<open>
  \<open>String(v)\<close>, which a template literal applies: the elements of an array are joined by
  commas, \<open>undefined\<close> and \<open>null\<close> elements printing as nothing.
\<close>

fun js_String :: "json \<Rightarrow> string"
  and js_String_elems :: "json list \<Rightarrow> string list" where
  "js_String JUndefined = ''undefined''"
| "js_String JNull = ''null''"
| "js_String (JBool b) = (if b then ''true'' else ''false'')"
| "js_String (JNum n) = number_toString n"
| "js_String (JStr s) = s"
| "js_String (JBigInt n) = number_toString n"
| "js_String (JBuffer b) = b"
| "js_String (JArr xs) = join '','' (js_String_elems xs)"
| "js_String (JObj ps) = ''[object Object]''"
| "js_String_elems [] = []"
| "js_String_elems (x # xs) = (if is_nullish x then [] else js_String x) # js_String_elems xs"

text \<open>
  The value a \<open>catch\<close> receives: an \<open>Error\<close> object, or any other value. The platform's
  functions and the sources throw \<open>Error\<close> objects; \<open>socket.sendMessage\<close> of the protocol
  library is typed \<open>any\<close> and its promise may reject with any value, \<open>undefined\<close> and \<open>null\<close>
  included.
\<close>

datatype thrown = ThrownError exn | ThrownValue json

text \<open>\<open>error instanceof Error ? error.message : String(error)\<close>.\<close>

definition errorMessage_of :: "thrown \<Rightarrow> string" where
  "errorMessage_of error =
     (case error of ThrownError err \<Rightarrow> exn_message err | ThrownValue v \<Rightarrow> js_String v)"

text \<open>
  What the senders call outside the sources: \<open>socket.sendMessage(jid, content)\<close>, \<open>fetch\<close>
  of a URL (with the response's \<open>ok\<close>, \<open>statusText\<close> and body), \<open>readFile\<close> of a path and the
  base64 decoding of \<open>Buffer.from\<close>.
\<close>

record action_env =
  sendMessage :: "nat \<Rightarrow> json \<Rightarrow> json \<Rightarrow> thrown + json"
  fetch :: "string \<Rightarrow> exn + (bool \<times> string \<times> string)"
  readFile :: "string \<Rightarrow> exn + string"
  Buffer_from_base64 :: "string \<Rightarrow> string"

text \<open>\<open>recipientJid.includes('@')\<close>: a \<open>TypeError\<close> on a value that has no \<open>includes\<close>.\<close>

definition includes_at :: "json \<Rightarrow> exn + bool" where
  "includes_at recipientJid =
     (case recipientJid of
        JStr s \<Rightarrow> Inr (sublist ''@'' s)
      | JArr xs \<Rightarrow> Inr (JStr ''@'' \<in> set xs)
      | JBuffer b \<Rightarrow> Inr (sublist ''@'' b)
      | _ \<Rightarrow> Inl (new_Error ''recipientJid.includes is not a function''))"

text \<open>
  The body of the \<open>try\<close> of \<open>sendTextMessage\<close>: the result, or the error, and the events sent
  to the client on the way.
\<close>

definition sendText_try ::
  "action_env \<Rightarrow> string \<Rightarrow> nat \<Rightarrow> json \<Rightarrow> json \<Rightarrow> (thrown + json) \<times> client_event list" where
  "sendText_try ae mcpSessionId sock recipientJid text =
     (case includes_at recipientJid of
        Inl err \<Rightarrow> (Inl (ThrownError err), [])
      | Inr has_at \<Rightarrow>
          if \<not> has_at
          then (Inr JUndefined,
                [(mcpSessionId, ''baileys_error'',
                  JObj [(''message'',
                         JStr (''Invalid recipient JID format: '' @ js_String recipientJid))])])
          else (case sendMessage ae sock recipientJid (JObj [(''text'', text)]) of
                  Inl error \<Rightarrow> (Inl error, [])
                | Inr sentMessage \<Rightarrow>
                    if is_nullish sentMessage then (Inr sentMessage, [])
                    else (case read_prop (jget sentMessage ''key'') ''id'' of
                            Inl err \<Rightarrow> (Inl (ThrownError err), [])
                          | Inr key_id \<Rightarrow> (Inr sentMessage, []))))"

text \<open>\<open>sendTextMessage\<close> of the core: the sent message or \<open>undefined\<close>, and the events it sent.\<close>

definition sendTextMessage ::
  "action_env \<Rightarrow> int \<Rightarrow> string \<Rightarrow> json \<Rightarrow> json \<Rightarrow> world \<Rightarrow> json \<times> client_event list \<times> world" where
  "sendTextMessage ae now mcpSessionId recipientJid text w =
     (case getBaileysSocket now mcpSessionId w of
        (None, w1) \<Rightarrow>
          (JUndefined,
           [(mcpSessionId, ''baileys_error'',
             JObj [(''message'', JStr ''Cannot send message: Baileys session not active or not found.''),
                   (''details'', JStr (''Attempted to send to '' @ js_String recipientJid))])],
           w1)
      | (Some sock, w1) \<Rightarrow>
          (case sendText_try ae mcpSessionId sock recipientJid text of
             (Inr sentMessage, events) \<Rightarrow> (sentMessage, events, w1)
           | (Inl error, events) \<Rightarrow>
               (JUndefined,
                events @
                [(mcpSessionId, ''baileys_error'',
                  JObj [(''message'',
                         JStr (''Failed to send text message to '' @ js_String recipientJid @ '': ''
                               @ errorMessage_of error))])],
                w1)))"

text \<open>\<open>path.basename\<close> of a path without trailing separators.\<close>

definition path_basename :: "string \<Rightarrow> string" where
  "path_basename p = rev (takeWhile (\<lambda>c. c \<noteq> CHR ''/'') (rev p))"

text \<open>
  \<open>prepareMediaForSending\<close>: the buffer of the media (fetched, read or given), then the
  content object for the kind of message.
\<close>

definition media_buffer :: "action_env \<Rightarrow> json \<Rightarrow> json \<Rightarrow> exn + (string \<times> json)" where
  "media_buffer ae mediaSource fileName =
     (case mediaSource of
        JStr src \<Rightarrow>
          if prefix ''http://'' src \<or> prefix ''https://'' src
          then (case fetch ae src of
                  Inl err \<Rightarrow> Inl err
                | Inr (ok, statusText, body) \<Rightarrow>
                    if \<not> ok
                    then Inl (new_Error (''Failed to fetch media from URL '' @ src @ '': ''
                                         @ statusText))
                    else Inr (body, fileName))
          else (case readFile ae src of
                  Inl err \<Rightarrow> Inl err
                | Inr body \<Rightarrow>
                    Inr (body, if \<not> truthy fileName then JStr (path_basename src)
                               else fileName))
      | JBuffer b \<Rightarrow> Inr (b, fileName)
      | _ \<Rightarrow> Inl (new_Error
                 ''Invalid mediaSource: must be a URL string, file path string, or a Buffer.''))"

definition prepareMediaForSending ::
  "action_env \<Rightarrow> json \<Rightarrow> string \<Rightarrow> json \<Rightarrow> json \<Rightarrow> json \<Rightarrow> exn + json" where
  "prepareMediaForSending ae mediaSource msgType cap fileName mimetype =
     (case media_buffer ae mediaSource fileName of
        Inl err \<Rightarrow> Inl err
      | Inr (mediaBuffer, fileName') \<Rightarrow>
          (let content = [(''caption'', cap)] in
           if msgType = ''image'' then
             (let c = jset content ''image'' (JBuffer mediaBuffer)
              in Inr (JObj (if truthy mimetype then jset c ''mimetype'' mimetype else c)))
           else if msgType = ''video'' then
             (let c = jset content ''video'' (JBuffer mediaBuffer)
              in Inr (JObj (if truthy mimetype then jset c ''mimetype'' mimetype else c)))
           else if msgType = ''audio'' then
             Inr (JObj (jset (jset content ''audio'' (JBuffer mediaBuffer))
                          ''mimetype'' (js_or mimetype (JStr ''audio/mp4''))))
           else if msgType = ''document'' then
             Inr (JObj (jset (jset (jset content ''document'' (JBuffer mediaBuffer))
                                ''mimetype'' (js_or mimetype (JStr ''application/octet-stream'')))
                          ''fileName'' (js_or fileName' (JStr ''file.bin''))))
           else if msgType = ''sticker'' then
             Inr (JObj (jset content ''sticker'' (JBuffer mediaBuffer)))
           else Inl (new_Error (''Unsupported media type for sending: '' @ msgType))))"

text \<open>\<open>s.split(sep)\<close> for a non-empty separator.\<close>

function split_on :: "string \<Rightarrow> string \<Rightarrow> string \<Rightarrow> string list" where
  "split_on sep acc [] = [rev acc]"
| "split_on sep acc (c # cs) =
     (if sep \<noteq> [] \<and> prefix sep (c # cs)
      then rev acc # split_on sep [] (drop (length sep) (c # cs))
      else split_on sep (c # acc) cs)"
  by pat_completeness auto
termination
  by (relation "measure (\<lambda>(sep, acc, s). length s)") auto

definition js_split :: "string \<Rightarrow> string \<Rightarrow> string list" where
  "js_split s sep = split_on sep [] s"

text \<open>
  An action of a client, and \<open>sendResponse\<close>: the data of the response with the action's
  type and request id added.
\<close>

record McpClientAction =
  actionType :: string
  action_payload :: json
  requestId :: json

definition sendResponse ::
  "string \<Rightarrow> McpClientAction \<Rightarrow> string \<Rightarrow> (string \<times> json) list \<Rightarrow> client_event" where
  "sendResponse mcpSessionId action eventType data =
     (mcpSessionId, eventType,
      JObj (jset (jset data ''_originalActionType'' (JStr (actionType action)))
              ''_requestId'' (requestId action)))"

text \<open>
  The success response of both cases. Its argument reads \<open>sentMsg.key.id\<close>, which throws on
  a message without key before \<open>sendResponse\<close> is called.
\<close>

definition success_response ::
  "string \<Rightarrow> McpClientAction \<Rightarrow> string \<Rightarrow> json \<Rightarrow> exn + client_event" where
  "success_response mcpSessionId action text sentMsg =
     (case read_prop (jget sentMsg ''key'') ''id'' of
        Inl err \<Rightarrow> Inl err
      | Inr key_id \<Rightarrow>
          Inr (sendResponse mcpSessionId action ''mcp_action_success''
                 [(''message'', JStr text), (''baileysMessageId'', key_id),
                  (''details'',
                   JObj [(''recipientJid'', jget (action_payload action) ''recipientJid'')])]))"

text \<open>The case \<open>SEND_TEXT_MESSAGE\<close> of the \<open>try\<close>: the value thrown, the events sent, the state.\<close>

definition send_text_case ::
  "action_env \<Rightarrow> int \<Rightarrow> string \<Rightarrow> McpClientAction \<Rightarrow> world
     \<Rightarrow> thrown option \<times> client_event list \<times> world" where
  "send_text_case ae now mcpSessionId action w =
     (let p = action_payload action in
      if \<not> truthy (jget p ''recipientJid'') \<or> (case jget p ''text'' of JStr t \<Rightarrow> False | _ \<Rightarrow> True)
      then (Some (ThrownError (new_Error
              ''Invalid payload for SEND_TEXT_MESSAGE. Requires recipientJid and text.'')), [], w)
      else
        (case sendTextMessage ae now mcpSessionId (jget p ''recipientJid'') (jget p ''text'') w of
           (sentMsg, events, w1) \<Rightarrow>
             if truthy sentMsg
             then (case success_response mcpSessionId action
                          ''Text message sent successfully via Baileys.'' sentMsg of
                     Inl err \<Rightarrow> (Some (ThrownError err), events, w1)
                   | Inr response \<Rightarrow> (None, events @ [response], w1))
             else (Some (ThrownError (new_Error
                     ''BaileysCore.sendTextMessage returned undefined. Sending failed.'')),
                   events, w1)))"

text \<open>The source of the media of \<open>SEND_IMAGE_MESSAGE\<close>: a base64 data URI, or a URL or path.\<close>

definition mediaBufferSource :: "action_env \<Rightarrow> json \<Rightarrow> exn + json" where
  "mediaBufferSource ae mediaSource =
     (case mediaSource of
        JStr src \<Rightarrow>
          if prefix ''data:'' src
          then (let parts = js_split src '';base64,''
                in if length parts \<noteq> 2
                   then Inl (new_Error ''Invalid base64 data URI for mediaSource.'')
                   else Inr (JBuffer (Buffer_from_base64 ae (parts ! 1))))
          else Inr (JStr src)
      | _ \<Rightarrow> Inl (new_Error
                 ''Unsupported mediaSource format. Must be URL, local path (server-side), or base64 data URI string.''))"

text \<open>
  The case \<open>SEND_IMAGE_MESSAGE\<close> of the \<open>try\<close>. Here \<open>socket.sendMessage\<close> is awaited directly,
  so the value its promise rejects with is the value the \<open>catch\<close> of the handler receives.
\<close>

definition send_image_case ::
  "action_env \<Rightarrow> int \<Rightarrow> string \<Rightarrow> McpClientAction \<Rightarrow> world
     \<Rightarrow> thrown option \<times> client_event list \<times> world" where
  "send_image_case ae now mcpSessionId action w =
     (let p = action_payload action in
      if \<not> truthy (jget p ''recipientJid'') \<or> \<not> truthy (jget p ''mediaSource'')
      then (Some (ThrownError (new_Error
              ''Invalid payload for SEND_IMAGE_MESSAGE. Requires recipientJid and mediaSource.'')),
            [], w)
      else
        (case mediaBufferSource ae (jget p ''mediaSource'') of
           Inl err \<Rightarrow> (Some (ThrownError err), [], w)
         | Inr src \<Rightarrow>
             (case prepareMediaForSending ae src ''image'' (jget p ''caption'')
                     (jget p ''fileName'') (jget p ''mimeType'') of
                Inl err \<Rightarrow> (Some (ThrownError err), [], w)
              | Inr baileysMediaContent \<Rightarrow>
                  (case getBaileysSocket now mcpSessionId w of
                     (None, w1) \<Rightarrow>
                       (Some (ThrownError (new_Error ''Baileys session not found or not active.'')),
                        [], w1)
                   | (Some sock, w1) \<Rightarrow>
                       (case sendMessage ae sock (jget p ''recipientJid'') baileysMediaContent of
                          Inl error \<Rightarrow> (Some error, [], w1)
                        | Inr sentImageMsg \<Rightarrow>
                            if truthy sentImageMsg
                            then (case success_response mcpSessionId action
                                         ''Image message sent successfully via Baileys.''
                                         sentImageMsg of
                                    Inl err \<Rightarrow> (Some (ThrownError err), [], w1)
                                  | Inr response \<Rightarrow> (None, [response], w1))
                            else (Some (ThrownError (new_Error
                                    ''socket.sendMessage for image returned undefined. Sending failed.'')),
                                  [], w1))))))"

text \<open>The \<open>switch\<close> inside the \<open>try\<close> of \<open>handleMcpClientAction\<close>.\<close>

definition action_try ::
  "action_env \<Rightarrow> int \<Rightarrow> string \<Rightarrow> McpClientAction \<Rightarrow> world
     \<Rightarrow> thrown option \<times> client_event list \<times> world" where
  "action_try ae now mcpSessionId action w =
     (if actionType action = ''SEND_TEXT_MESSAGE'' then send_text_case ae now mcpSessionId action w
      else if actionType action = ''SEND_IMAGE_MESSAGE''
      then send_image_case ae now mcpSessionId action w
      else (Some (ThrownError (new_Error
                    (''Unknown or unsupported actionType: '' @ actionType action))), [], w))"

text \<open>
  \<open>(error as any).details\<close> in the \<open>catch\<close> of the handler: the property of the \<open>Error\<close> object or
  of the value caught, and a \<open>TypeError\<close> when the value caught is \<open>undefined\<close> or \<open>null\<close>.
\<close>

definition error_details :: "thrown \<Rightarrow> exn + json" where
  "error_details error =
     (case error of
        ThrownError err \<Rightarrow> Inr (exn_details err)
      | ThrownValue v \<Rightarrow> read_prop v ''details'')"

text \<open>
  \<open>handleMcpClientAction\<close>: the rejection of its promise, the events it hands to
  \<open>sendEventToClient\<close>, in order, and the state of the manager. The \<open>catch\<close> builds the data
  of the \<open>mcp_action_error\<close> response before it calls \<open>sendResponse\<close>; the read of \<open>details\<close>
  there is outside every \<open>try\<close>, so when it throws the handler rejects and no response is
  sent.
\<close>

definition handleMcpClientAction ::
  "action_env \<Rightarrow> int \<Rightarrow> string \<Rightarrow> McpClientAction \<Rightarrow> world
     \<Rightarrow> exn option \<times> client_event list \<times> world" where
  "handleMcpClientAction ae now mcpSessionId action w =
     (case action_try ae now mcpSessionId action w of
        (None, events, w1) \<Rightarrow> (None, events, w1)
      | (Some error, events, w1) \<Rightarrow>
          (case error_details error of
             Inl err \<Rightarrow> (Some err, events, w1)
           | Inr details \<Rightarrow>
               (None,
                events @
                [sendResponse mcpSessionId action ''mcp_action_error''
                   [(''message'',
                     JStr (''Error processing action '' @ [CHR 0x27] @ actionType action
                           @ [CHR 0x27] @ '': '' @ errorMessage_of error)),
                    (''details'', js_or details (JObj []))]],
                w1)))"

text \<open>The terminal events of an action, and the delivery of a list of events in order.\<close>

definition is_terminal :: "client_event \<Rightarrow> bool" where
  "is_terminal ev =
     (fst (snd ev) = ''mcp_action_success'' \<or> fst (snd ev) = ''mcp_action_error'')"

fun deliver :: "int \<Rightarrow> client_event list \<Rightarrow> registry \<Rightarrow> registry" where
  "deliver now [] sessions = sessions"
| "deliver now ((sessionId, eventType, data) # evs) sessions =
     deliver now evs (snd (sendEventToClient now sessionId eventType data sessions))"

section \<open>The tags of the adapter, as the specification and the sources have them\<close>

text \<open>
  The tag the chain of tests selects, first match first: a media message is tagged with
  the kind of its first media sub-message, as \<open>downloadAndProcessMedia\<close> determines it.
  \<open>adapter_tags\<close> are the tags a payload can carry; \<open>claimed_tags\<close> are the seven tags the
  specification lists. A message is well-formed when it has a key, its timestamp is
  absent, a number or has \<open>toNumber()\<close>, and the contacts of a contacts-array message are
  absent or a list of contacts: what the protocol library's decoder delivers.
\<close>

definition media_tag :: "json \<Rightarrow> string" where
  "media_tag m =
     (if truthy (jget m ''imageMessage'') then ''image''
      else if truthy (jget m ''videoMessage'') then ''video''
      else if truthy (jget m ''audioMessage'') then ''audio''
      else if truthy (jget m ''documentMessage'') then ''document''
      else ''sticker'')"

definition first_match_tag :: "json \<Rightarrow> string" where
  "first_match_tag message =
     (let m = jget message ''message'' in
      if truthy (jget m ''conversation'') then ''text''
      else if truthy (jget m ''extendedTextMessage'') then ''text''
      else if is_media m then media_tag m
      else if truthy (jget m ''reactionMessage'') then ''reaction''
      else if truthy (jget m ''locationMessage'') then ''location''
      else if truthy (jget m ''contactMessage'') then ''contact''
      else if truthy (jget m ''contactsArrayMessage'') then ''contacts_array''
      else ''unknown'')"

definition adapter_tags :: "string list" where
  "adapter_tags = [''text'', ''image'', ''video'', ''audio'', ''document'', ''sticker'',
                   ''reaction'', ''location'', ''contact'', ''contacts_array'', ''unknown'']"

definition claimed_tags :: "string list" where
  "claimed_tags = [''text'', ''media'', ''reaction'', ''location'', ''contact'', ''contacts_array'', ''unknown'']"

definition wellformed_message :: "media_env \<Rightarrow> json \<Rightarrow> bool" where
  "wellformed_message me message =
     (\<not> is_nullish message \<and> \<not> is_nullish (jget message ''key'')
      \<and> \<not> isl (payload_timestamp me 0 message)
      \<and> \<not> isl (contacts_of (jget (jget (jget message ''message'') ''contactsArrayMessage'') ''contacts'')))"

section \<open>Example states\<close>

text \<open>A registry with one open push session \<open>s1\<close> and one closed session \<open>s2\<close>.\<close>

definition example_sessions :: registry where
  "example_sessions =
     [(''s1'', \<lparr>session_id = ''s1'',
               connection = \<lparr>closed = False, destroyed = False, write_throws = False, written = []\<rparr>,
               lastSeen = 0\<rparr>),
      (''s2'', \<lparr>session_id = ''s2'',
               connection = \<lparr>closed = True, destroyed = False, write_throws = False, written = []\<rparr>,
               lastSeen = 0\<rparr>)]"

text \<open>
  An environment in which nothing fails: the logged-out code is 401 as in the protocol
  library, and every socket has a \<open>ws\<close> that is still connecting (\<open>readyState\<close> 0, \<open>OPEN\<close> 1).
\<close>

definition example_env :: env where
  "example_env =
     \<lparr>AUTH_STATE_BASE_DIR = ''.baileys_auth_state'', DisconnectReason_loggedOut = 401,
      useMultiFileAuthState_throws = (\<lambda>dir. False), makeWASocket_throws = (\<lambda>n. False),
      logout_rejects = (\<lambda>sock. False), end_throws = (\<lambda>sock. False),
      rm_fails = (\<lambda>dir. False), ws = (\<lambda>sock. Some (0, 1))\<rparr>"

definition qr_update :: "string \<Rightarrow> ConnectionUpdate" where
  "qr_update q =
     \<lparr>update_connection = None, update_lastDisconnect = None, update_qr = Some q\<rparr>"

definition open_update :: ConnectionUpdate where
  "open_update =
     \<lparr>update_connection = Some ConnOpen, update_lastDisconnect = None, update_qr = None\<rparr>"

definition close_update :: "string \<Rightarrow> int \<Rightarrow> ConnectionUpdate" where
  "close_update msg code =
     \<lparr>update_connection = Some ConnClose,
      update_lastDisconnect =
        Some \<lparr>ld_error = Some \<lparr>boom_message = msg, output_statusCode = Some code\<rparr>,
              ld_reason = JUndefined\<rparr>,
      update_qr = None\<rparr>"

definition restart_required :: ConnectionUpdate where
  "restart_required = close_update ''Stream Errored (restart required)'' 515"

definition logged_out :: ConnectionUpdate where
  "logged_out = close_update ''Connection Failure'' 401"

text \<open>Tenant \<open>t1\<close> after its first \<open>getOrCreateBaileysSession\<close> at time 0, with callbacks 7.\<close>

definition t1_created :: world where
  "t1_created = snd (getOrCreateBaileysSession example_env 0 ''t1'' 7 JUndefined initial_world)"

text \<open>Tenant \<open>t1\<close> after the pairing codes \<open>Q1\<close> and \<open>Q2\<close>, and after the connection opened.\<close>

definition t1_q2 :: world where
  "t1_q2 = connection_update example_env 20 0 (qr_update ''Q2'')
            (connection_update example_env 10 0 (qr_update ''Q1'') t1_created)"

definition t1_open :: world where
  "t1_open = connection_update example_env 30 0 open_update t1_q2"



text \<open>
  The environment in which the removal of a credential directory fails, and tenant \<open>t1\<close>
  after a terminal logout.
\<close>

definition rm_fails_env :: env where
  "rm_fails_env = example_env\<lparr>rm_fails := (\<lambda>dir. True)\<rparr>"

definition t1_logged_out :: world where
  "t1_logged_out = connection_update example_env 10 0 logged_out t1_created"

text \<open>
  Two tenants \<open>A\<close> and \<open>B\<close>, both created at time 0, and the environment in which the
  socket of \<open>A\<close> rejects \<open>logout()\<close> and throws on \<open>end()\<close>.
\<close>

definition two_tenants :: world where
  "two_tenants =
     snd (getOrCreateBaileysSession example_env 0 ''B'' 2 JUndefined
       (snd (getOrCreateBaileysSession example_env 0 ''A'' 1 JUndefined initial_world)))"

definition end_throws_env :: env where
  "end_throws_env = example_env\<lparr>logout_rejects := (\<lambda>sock. sock = 0), end_throws := (\<lambda>sock. sock = 0)\<rparr>"

text \<open>
  Tenant \<open>t1\<close> after a terminal logout whose teardown throws; and after a restart-required
  close, a terminal logout two seconds later, and then the firing of the timer that the
  first close armed.
\<close>

definition t1_logout_end_throws :: world where
  "t1_logout_end_throws = connection_update end_throws_env 10 0 logged_out t1_created"

definition t1_restart_then_logout :: world where
  "t1_restart_then_logout =
     connection_update example_env 2000 0 logged_out
       (connection_update example_env 1 0 restart_required t1_created)"

definition t1_logout_then_timer :: world where
  "t1_logout_then_timer = fire_timer example_env 3001 t1_restart_then_logout"

text \<open>
  Tenant \<open>t1\<close> through three rounds of a restart-required close on its current socket, each
  followed by the firing of the timer the close armed.
\<close>

definition t1_retry1 :: world where
  "t1_retry1 = fire_timer example_env 3001 (connection_update example_env 1 0 restart_required t1_created)"

definition t1_retry2 :: world where
  "t1_retry2 = fire_timer example_env 6002 (connection_update example_env 3002 1 restart_required t1_retry1)"

definition t1_retry3 :: world where
  "t1_retry3 = fire_timer example_env 9003 (connection_update example_env 6003 2 restart_required t1_retry2)"

text \<open>
  Tenant \<open>t1\<close> after three restart-required closes on its first socket before any timer
  fired, and then after the three timers fired.
\<close>

definition t1_burst :: world where
  "t1_burst =
     connection_update example_env 3 0 restart_required
       (connection_update example_env 2 0 restart_required
         (connection_update example_env 1 0 restart_required t1_created))"

definition t1_burst_fired :: world where
  "t1_burst_fired =
     fire_timer example_env 3003 (fire_timer example_env 3002 (fire_timer example_env 3001 t1_burst))"

text \<open>
  An image message, and an environment in which its download and the temporary file
  succeed.
\<close>

definition example_media_env :: media_env where
  "example_media_env =
     \<lparr>TEMP_MEDIA_DIR = ''/tmp/mcp_baileys_media'', uuidv4 = ''u1'',
      downloadMediaMessage = (\<lambda>m. Inr (JBuffer ''IMG'')),
      writeFile_throws = (\<lambda>p. False),
      toNumber = (\<lambda>v. Inl (new_Error ''toNumber is not a function''))\<rparr>"

definition image_message :: json where
  "image_message =
     JObj [(''key'', JObj [(''remoteJid'', JStr ''491700@s.whatsapp.net''),
                          (''fromMe'', JBool False), (''id'', JStr ''M1'')]),
           (''messageTimestamp'', JNum 1700000000),
           (''message'',
              JObj [(''imageMessage'',
                       JObj [(''url'', JStr ''https://mmg.whatsapp.net/x''),
                             (''mimetype'', JStr ''image/jpeg''),
                             (''caption'', JStr ''hello''),
                             (''mediaKey'', JBuffer ''K'')])])]"

text \<open>
  An environment in which \<open>sendMessage\<close> returns a message with a key, an action of an
  unknown type and a text action.
\<close>

definition example_action_env :: action_env where
  "example_action_env =
     \<lparr>sendMessage = (\<lambda>sock jid content. Inr (JObj [(''key'', JObj [(''id'', JStr ''SENT1'')])])),
      fetch = (\<lambda>u. Inl (new_Error ''fetch failed'')),
      readFile = (\<lambda>p. Inl (new_Error ''ENOENT'')),
      Buffer_from_base64 = (\<lambda>s. s)\<rparr>"

definition ping_action :: McpClientAction where
  "ping_action = \<lparr>actionType = ''PING'', action_payload = JObj [], requestId = JStr ''r1''\<rparr>"

definition text_action :: McpClientAction where
  "text_action =
     \<lparr>actionType = ''SEND_TEXT_MESSAGE'',
      action_payload = JObj [(''recipientJid'', JStr ''491700@s.whatsapp.net''), (''text'', JStr ''hi'')],
      requestId = JStr ''r2''\<rparr>"

text \<open>
  An environment in which the promise of \<open>sendMessage\<close> rejects without a reason, and an
  image action whose media is a base64 data URI.
\<close>

definition rejecting_action_env :: action_env where
  "rejecting_action_env =
     \<lparr>sendMessage = (\<lambda>sock jid content. Inl (ThrownValue JUndefined)),
      fetch = (\<lambda>u. Inl (new_Error ''fetch failed'')),
      readFile = (\<lambda>p. Inl (new_Error ''ENOENT'')),
      Buffer_from_base64 = (\<lambda>s. s)\<rparr>"

definition image_action :: McpClientAction where
  "image_action =
     \<lparr>actionType = ''SEND_IMAGE_MESSAGE'',
      action_payload = JObj [(''recipientJid'', JStr ''491700@s.whatsapp.net''),
                             (''mediaSource'', JStr ''data:image/png;base64,aGk='')],
      requestId = JStr ''r3''\<rparr>"

chapter \<open>Properties\<close>

section \<open>The event broadcaster\<close>

lemma map_get_map_set:
  "map_get (map_set m k v) k' = (if k' = k then Some v else map_get m k')"
  by (induction m) (auto simp: map_get_def)

lemma map_get_map_delete:
  "map_get (map_delete m k) k' = (if k' = k then None else map_get m k')"
  by (induction m) (auto simp: map_get_def map_delete_def)

text \<open>
  C6. For every session id, event type and payload, \<open>sendEventToClient\<close> returns a boolean
  and never throws. The boolean is true exactly when the registry has an entry for the id
  whose transport is neither closed nor destroyed, the payload serialises, and the write
  does not fail; so it is false for an absent entry, for a closed transport and for every
  failure inside the \<open>try\<close>. The client's transport receives exactly one more chunk when
  the result is true, the frame built from the event type and the serialised payload, and
  nothing otherwise; no other session's transport changes. For a non-empty event type that
  frame is the wire envelope of the interface section. (Logging is not modelled.)
\<close>

theorem sendEventToClient_contract:
  "fst (sendEventToClient now sessionId eventType data sessions) =
     Inr (transport_open sessions sessionId \<and> \<not> isl (stringify data)
          \<and> \<not> write_fails sessions sessionId)
   \<and> frames_of (snd (sendEventToClient now sessionId eventType data sessions)) other =
       frames_of sessions other @
       (if other = sessionId \<and> transport_open sessions sessionId \<and> \<not> isl (stringify data)
           \<and> \<not> write_fails sessions sessionId
        then [eventString eventType (projr (stringify data))] else [])
   \<and> (eventType \<noteq> [] \<longrightarrow> eventString eventType (Some js) = sse_frame eventType js)"
proof (intro conjI)
  show "fst (sendEventToClient now sessionId eventType data sessions) =
     Inr (transport_open sessions sessionId \<and> \<not> isl (stringify data)
          \<and> \<not> write_fails sessions sessionId)"
    by (auto simp: sendEventToClient_def getSession_def transport_open_def write_fails_def
        send_try_def connection_write_def map_get_map_set Let_def
        split: option.splits prod.splits sum.splits)
  show "frames_of (snd (sendEventToClient now sessionId eventType data sessions)) other =
       frames_of sessions other @
       (if other = sessionId \<and> transport_open sessions sessionId \<and> \<not> isl (stringify data)
           \<and> \<not> write_fails sessions sessionId
        then [eventString eventType (projr (stringify data))] else [])"
    by (auto simp: sendEventToClient_def getSession_def transport_open_def write_fails_def
        send_try_def connection_write_def map_get_map_set frames_of_def Let_def
        split: option.splits prod.splits sum.splits)
  show "eventType \<noteq> [] \<longrightarrow> eventString eventType (Some js) = sse_frame eventType js"
    by (simp add: eventString_def sse_frame_def template_of_def)
qed

theorem sendEventToClient_contract_witness:
  "fst (sendEventToClient 5 ''s1'' ''baileys_connected'' (JObj [(''ok'', JBool True)])
          example_sessions) = Inr True
   \<and> frames_of (snd (sendEventToClient 5 ''s1'' ''baileys_connected''
          (JObj [(''ok'', JBool True)]) example_sessions)) ''s1'' =
       [sse_frame ''baileys_connected'' (''{'' @ quote ''ok'' @ '':true}'')]
   \<and> fst (sendEventToClient 5 ''s2'' ''baileys_connected'' (JObj [(''ok'', JBool True)])
          example_sessions) = Inr False
   \<and> fst (sendEventToClient 5 ''s3'' ''baileys_connected'' (JObj [(''ok'', JBool True)])
          example_sessions) = Inr False"
  using sendEventToClient_contract [of 5 "''s1''" "''baileys_connected''"
      "JObj [(''ok'', JBool True)]" example_sessions "''s1''" "''{'' @ quote ''ok'' @ '':true}''"]
    sendEventToClient_contract [of 5 "''s2''" "''baileys_connected''"
      "JObj [(''ok'', JBool True)]" example_sessions "''s2''" "[]"]
    sendEventToClient_contract [of 5 "''s3''" "''baileys_connected''"
      "JObj [(''ok'', JBool True)]" example_sessions "''s3''" "[]"]
  by (simp add: transport_open_def write_fails_def frames_of_def example_sessions_def
      map_get_def)

section \<open>The protocol-session manager: well-formed states\<close>

text \<open>
  Every operation of the manager and every handler keeps the references of the map, of
  the handlers and of the timers inside the heap, so the states reachable from
  \<open>initial_world\<close> are well-formed.
\<close>

lemma set_map_set: "set (map_set m k v) \<subseteq> insert (k, v) (set m)"
  by (induction m) (auto split: if_splits)

lemma set_map_delete: "set (map_delete m k) \<subseteq> set m"
  by (auto simp: map_delete_def)

lemma map_get_Some_in: "map_get m k = Some r \<Longrightarrow> (k, r) \<in> set m"
  by (simp add: map_get_def map_of_SomeD)

lemma wf_world_iff:
  "wf_world w \<longleftrightarrow>
     length (sockets w) = length (heap w)
     \<and> (\<forall>(k, r) \<in> set (baileysSessions w). r < length (heap w))
     \<and> (\<forall>h \<in> set (sockets w). handler_session h < length (heap w))
     \<and> (\<forall>t \<in> set (timers w). timer_currentSession t < length (heap w))
     \<and> (\<forall>i < length (heap w). socket (heap w ! i) = i \<and> handler_session (sockets w ! i) = i)"
  by (auto simp: wf_world_def list_all_iff)

lemma nth_update_gen: "xs[r := x] ! i = (if i = r \<and> r < length xs then x else xs ! i)"
  by (cases "r < length xs") (simp_all add: nth_list_update list_update_beyond not_less)

lemma wf_update_session:
  assumes "wf_world w" "\<And>x. socket (f x) = socket x"
  shows "wf_world (update_session r f w)"
  using assms by (auto simp: wf_world_iff update_session_def nth_update_gen)

lemma wf_emit: "wf_world w \<Longrightarrow> wf_world (emit x w)"
  by (auto simp: wf_world_iff emit_def)

lemma wf_trace_update: "wf_world w \<Longrightarrow> wf_world (w\<lparr>trace := xs\<rparr>)"
  by (auto simp: wf_world_iff)

lemma wf_getOrCreate:
  assumes "wf_world w"
  shows "wf_world (snd (getOrCreateBaileysSession e now k cb opts w))"
proof (cases "map_get (baileysSessions w) k")
  case (Some r)
  then show ?thesis using assms
    by (auto simp: getOrCreateBaileysSession_def Let_def intro!: wf_trace_update wf_update_session)
next
  case None
  show ?thesis
    using assms None set_map_set [of "baileysSessions w" k "length (heap w)"]
    by (auto simp: getOrCreateBaileysSession_def Let_def wf_world_iff nth_append less_Suc_eq split: if_splits)
qed

lemma wf_remove:
  assumes "wf_world w"
  shows "wf_world (snd (removeBaileysSession e k d w))"
  using assms set_map_delete [of "baileysSessions w" k]
  by (auto simp: removeBaileysSession_def Let_def wf_world_iff emit_def split: option.splits)

lemma wf_on_qr: "wf_world w \<Longrightarrow> wf_world (on_qr r cb q w)"
  by (auto simp: on_qr_def intro!: wf_emit wf_update_session split: option.splits)

lemma wf_map_self:
  assumes "wf_world w" "map_get (baileysSessions w) k = Some r"
  shows "wf_world (w\<lparr>baileysSessions := map_set (baileysSessions w) k r\<rparr>)"
  using assms set_map_set [of "baileysSessions w" k r]
  by (auto simp: wf_world_iff dest!: map_get_Some_in)

lemma map_get_update_session [simp]: "baileysSessions (update_session r f w) = baileysSessions w"
  by (simp add: update_session_def)

lemma map_get_emit [simp]: "baileysSessions (emit x w) = baileysSessions w"
  by (simp add: emit_def)

lemma wf_set_map:
  assumes "wf_world w" "r < length (heap w)"
  shows "wf_world (w\<lparr>baileysSessions := map_set (baileysSessions w) k r\<rparr>)"
  using assms set_map_set [of "baileysSessions w" k r]
  by (auto simp: wf_world_iff)

lemma wf_world_ref: "wf_world w \<Longrightarrow> map_get (baileysSessions w) k = Some r \<Longrightarrow> r < length (heap w)"
  by (auto simp: wf_world_def list_all_iff dest!: map_get_Some_in)

lemma length_heap_update_session [simp]: "length (heap (update_session r f w)) = length (heap w)"
  by (simp add: update_session_def)

lemma wf_on_open: 
  assumes "wf_world w" shows "wf_world (on_open k r cb w)"
proof -
  let ?w1 = "case map_get (baileysSessions w) k of
                  Some currentSession \<Rightarrow>
                    (let w' = update_session currentSession (\<lambda>x. x\<lparr>retryCount := 0\<rparr>) w
                     in w'\<lparr>baileysSessions :=
                              map_set (baileysSessions w') k currentSession\<rparr>)
                | None \<Rightarrow> w"
  have "wf_world ?w1"
  proof (cases "map_get (baileysSessions w) k")
    case None
    then show ?thesis using assms by simp
  next
    case (Some c)
    with assms have "c < length (heap w)" by (rule wf_world_ref)
    then show ?thesis
      using assms Some set_map_set [of "baileysSessions w" k c]
      by (auto simp: Let_def wf_world_iff update_session_def nth_update_gen)
  qed
  then show ?thesis
    by (auto simp: on_open_def Let_def intro!: wf_emit wf_update_session split: option.splits)
qed

lemma wf_restart: 
  assumes "wf_world w" shows "wf_world (restart_required_branch k cb w)"
proof (cases "map_get (baileysSessions w) k")
  case None
  then show ?thesis using assms by (simp add: restart_required_branch_def)
next
  case (Some r)
  with assms have "r < length (heap w)" by (rule wf_world_ref)
  then show ?thesis
    using assms Some set_map_set [of "baileysSessions w" k r]
    by (auto simp: restart_required_branch_def Let_def wf_world_iff update_session_def nth_update_gen)
qed

lemma wf_on_close: 
  assumes "wf_world w" shows "wf_world (on_close e k cb ld w)"
  using assms by (auto simp: on_close_def Let_def intro!: wf_restart wf_remove wf_emit)

lemma wf_connection_update:
  assumes "wf_world w" shows "wf_world (connection_update e now s u w)"
  using assms
  by (auto simp: connection_update_def Let_def intro!: wf_on_close wf_on_open wf_on_qr wf_update_session split: option.splits connection_state.splits)

lemma wf_fire_timer:
  assumes "wf_world w" shows "wf_world (fire_timer e now w)"
proof (cases "timers w")
  case Nil then show ?thesis using assms by (simp add: fire_timer_def)
next
  case (Cons t ts)
  have "wf_world (w\<lparr>timers := ts, baileysSessions := map_delete (baileysSessions w) (timer_mcpSessionId t)\<rparr>)"
    using assms Cons set_map_delete [of "baileysSessions w" "timer_mcpSessionId t"]
    by (auto simp: wf_world_iff)
  then show ?thesis using Cons by (simp add: fire_timer_def Let_def wf_getOrCreate)
qed

lemma wf_remove_eq:
  "wf_world w \<Longrightarrow> removeBaileysSession e k d w = (r, w') \<Longrightarrow> wf_world w'"
  using wf_remove [of w e k d] by simp

lemma wf_cleanup_loop:
  "wf_world w \<Longrightarrow> wf_world (snd (cleanup_loop e now m es w))"
proof (induction es arbitrary: w)
  case Nil
  then show ?case by simp
next
  case (Cons x es)
  obtain k r where x: "x = (k, r)" by (cases x)
  obtain res w' where rm: "removeBaileysSession e k False w = (res, w')"
    by (cases "removeBaileysSession e k False w")
  with Cons.prems have "wf_world w'" by (rule wf_remove_eq)
  with Cons show ?case by (auto simp: x rm split: option.splits)
qed

lemma wf_upsert: "wf_world w \<Longrightarrow> wf_world (snd (upsert_forEach cb k ms w))"
  by (induction ms arbitrary: w) (auto simp: wf_emit split: sum.splits)


section \<open>Idempotent creation\<close>

lemma getOrCreate_existing:
  assumes "wf_world w" "session_of w k = Some entry"
  shows "getOrCreateBaileysSession e now k cb opts w =
     (Inr (socket entry),
      (update_session (the (map_get (baileysSessions w) k)) (\<lambda>x. x\<lparr>lastActivityTime := now\<rparr>) w)
        \<lparr>trace := trace w @ replay_pending_qr e cb (entry\<lparr>lastActivityTime := now\<rparr>)\<rparr>)"
proof -
  from assms obtain r where r: "map_get (baileysSessions w) k = Some r" "entry = heap w ! r"
    by (auto simp: session_of_def split: option.splits)
  with assms have lt: "r < length (heap w)" by (auto dest: wf_world_ref)
  show ?thesis
    using r lt
    by (simp add: getOrCreateBaileysSession_def Let_def update_session_def)
qed

lemma replay_pending_qr_time [simp]:
  "replay_pending_qr e cb (entry\<lparr>lastActivityTime := now\<rparr>) = replay_pending_qr e cb entry"
  by (simp add: replay_pending_qr_def split: option.splits)





section \<open>Freshness of the pending pairing code\<close>

lemma wf_handler:
  assumes "wf_world w" "sock < length (sockets w)"
  shows "handler_session (sockets w ! sock) = sock" "sock < length (heap w)" "socket (heap w ! sock) = sock"
  using assms by (auto simp: wf_world_iff)

lemma cu_qr:
  assumes "update_connection u \<noteq> Some ConnClose" "update_connection u \<noteq> Some ConnOpen"
  shows "connection_update e now sock u w =
     on_qr (handler_session (sockets w ! sock)) (handler_callbacks (sockets w ! sock)) (update_qr u)
       (update_session (handler_session (sockets w ! sock)) (\<lambda>x. x\<lparr>lastActivityTime := now\<rparr>) w)"
  using assms
  by (auto simp: connection_update_def Let_def update_session_def split: option.splits connection_state.splits)

lemma cu_qr_facts:
  assumes "wf_world w" "sock < length (sockets w)"
    "update_connection u \<noteq> Some ConnClose" "update_connection u \<noteq> Some ConnOpen"
    "update_qr u = Some q"
  shows "sockets (connection_update e now sock u w) = sockets w"
    "baileysSessions (connection_update e now sock u w) = baileysSessions w"
    "q \<noteq> [] \<Longrightarrow> qrCode (heap (connection_update e now sock u w) ! sock) = Some q"
    "socket (heap (connection_update e now sock u w) ! sock) = sock"
  using assms wf_handler [OF assms(1,2)]
  by (auto simp: cu_qr on_qr_def update_session_def emit_def)

lemma cu_open_facts:
  assumes "wf_world w" "sock < length (sockets w)"
    "update_connection u = Some ConnOpen"
    "map_get (baileysSessions w) (handler_mcpSessionId (sockets w ! sock)) = Some sock"
  shows "sockets (connection_update e now sock u w) = sockets w"
    "map_get (baileysSessions (connection_update e now sock u w)) (handler_mcpSessionId (sockets w ! sock)) = Some sock"
    "qrCode (heap (connection_update e now sock u w) ! sock) = None"
    "socket (heap (connection_update e now sock u w) ! sock) = sock"
    "retryCount (heap (connection_update e now sock u w) ! sock) = 0"
  using assms wf_handler [OF assms(1,2)]
  by (auto simp: connection_update_def Let_def on_open_def on_qr_def update_session_def emit_def map_get_map_set split: option.splits)

text \<open>
  C4. Let the socket \<open>sock\<close> belong to the tenant's entry of the map. After it reports the
  pairing code \<open>Q1\<close> and then the non-empty code \<open>Q2\<close> (in updates that neither close nor
  open the connection), the entry stores \<open>Q2\<close>, and a later subscriber's
  \<open>getOrCreateBaileysSession\<close> has its \<open>onQR\<close> called with \<open>Q2\<close> only (and only while the
  socket's \<open>ws\<close> is not open), never with \<open>Q1\<close>. After an update that opens the connection
  the stored code is cleared and a later subscriber's call invokes no callback at all.
\<close>

theorem qr_freshness:
  assumes wf: "wf_world w" and s: "sock < length (sockets w)"
    and live: "map_get (baileysSessions w) (handler_mcpSessionId (sockets w ! sock)) = Some sock"
    and q2: "Q2 \<noteq> []"
    and u1: "update_qr u1 = Some Q1" "update_connection u1 \<noteq> Some ConnClose" "update_connection u1 \<noteq> Some ConnOpen"
    and u2: "update_qr u2 = Some Q2" "update_connection u2 \<noteq> Some ConnClose" "update_connection u2 \<noteq> Some ConnOpen"
    and u3: "update_connection u3 = Some ConnOpen"
    and w2: "w2 = connection_update e t2 sock u2 (connection_update e t1 sock u1 w)"
    and w3: "w3 = connection_update e t3 sock u3 w2"
    and k: "mcpSessionId = handler_mcpSessionId (sockets w ! sock)"
  shows "(\<exists>entry. session_of w2 mcpSessionId = Some entry \<and> qrCode entry = Some Q2)
     \<and> trace (snd (getOrCreateBaileysSession e t4 mcpSessionId cb opts w2)) =
         trace w2 @ (if ws_not_open e sock then [OnQR cb Q2] else [])
     \<and> (\<exists>entry. session_of w3 mcpSessionId = Some entry \<and> qrCode entry = None)
     \<and> trace (snd (getOrCreateBaileysSession e t5 mcpSessionId cb opts w3)) = trace w3"
proof -
  let ?wa = "connection_update e t1 sock u1 w"
  have wfa: "wf_world ?wa" using wf by (rule wf_connection_update)
  have sa: "sock < length (sockets ?wa)" using cu_qr_facts(1) [OF wf s u1(2,3,1)] s by simp
  have wf2: "wf_world w2" unfolding w2 using wfa by (rule wf_connection_update)
  have socks2: "sockets w2 = sockets w"
    unfolding w2 using cu_qr_facts(1) [OF wfa sa u2(2,3,1)] cu_qr_facts(1) [OF wf s u1(2,3,1)] by simp
  have map2: "baileysSessions w2 = baileysSessions w"
    unfolding w2 using cu_qr_facts(2) [OF wfa sa u2(2,3,1)] cu_qr_facts(2) [OF wf s u1(2,3,1)] by simp
  have qr2: "qrCode (heap w2 ! sock) = Some Q2" "socket (heap w2 ! sock) = sock"
    unfolding w2 using cu_qr_facts(3,4) [OF wfa sa u2(2,3,1)] q2 by simp_all
  have en2: "session_of w2 mcpSessionId = Some (heap w2 ! sock)"
    using live by (simp add: session_of_def map2 k)
  have s2: "sock < length (sockets w2)" using s socks2 by simp
  have live2: "map_get (baileysSessions w2) (handler_mcpSessionId (sockets w2 ! sock)) = Some sock"
    using live by (simp add: map2 socks2)
  have wf3: "wf_world w3" unfolding w3 using wf2 by (rule wf_connection_update)
  note o = cu_open_facts [OF wf2 s2 u3 live2, of e t3, folded w3]
  have en3: "session_of w3 mcpSessionId = Some (heap w3 ! sock)"
    using o(2) by (simp add: session_of_def socks2 k)
  have A: "\<exists>entry. session_of w2 mcpSessionId = Some entry \<and> qrCode entry = Some Q2"
    using en2 qr2 by simp
  have B: "trace (snd (getOrCreateBaileysSession e t4 mcpSessionId cb opts w2)) =
         trace w2 @ (if ws_not_open e sock then [OnQR cb Q2] else [])"
    using qr2 q2 by (simp add: getOrCreate_existing [OF wf2 en2] replay_pending_qr_def)
  have C: "\<exists>entry. session_of w3 mcpSessionId = Some entry \<and> qrCode entry = None"
    using en3 o(3) by simp
  have D: "trace (snd (getOrCreateBaileysSession e t5 mcpSessionId cb opts w3)) = trace w3"
    using o(3) by (simp add: getOrCreate_existing [OF wf3 en3] replay_pending_qr_def)
  from A B C D show ?thesis by blast
qed

theorem qr_freshness_witness:
  "wf_world t1_created \<and> (0::nat) < length (sockets t1_created)
   \<and> map_get (baileysSessions t1_created) (handler_mcpSessionId (sockets t1_created ! 0)) = Some 0
   \<and> ws_not_open example_env 0
   \<and> trace (snd (getOrCreateBaileysSession example_env 40 ''t1'' 8 JUndefined t1_q2))
       = trace t1_q2 @ [OnQR 8 ''Q2'']
   \<and> trace (snd (getOrCreateBaileysSession example_env 50 ''t1'' 8 JUndefined t1_open))
       = trace t1_open"
proof -
  have wf: "wf_world t1_created" by code_simp
  have s: "(0::nat) < length (sockets t1_created)" by code_simp
  have live: "map_get (baileysSessions t1_created) (handler_mcpSessionId (sockets t1_created ! 0)) = Some 0"
    by code_simp
  have k: "''t1'' = handler_mcpSessionId (sockets t1_created ! 0)" by code_simp
  have n: "ws_not_open example_env 0" by code_simp
  from qr_freshness [OF wf s live, of "''Q2''" "qr_update ''Q1''" "''Q1''" "qr_update ''Q2''" open_update
      t1_q2 example_env 20 10 t1_open 30 "''t1''" 40 8 JUndefined 50] k n
  show ?thesis using wf s live
    by (simp add: qr_update_def open_update_def t1_q2_def t1_open_def)
qed

section \<open>Finality of a terminal logout\<close>

lemma pre_close_facts:
  assumes "wA = on_qr rs cb q (update_session rs (\<lambda>x. x\<lparr>lastActivityTime := now\<rparr>) w)"
  shows "baileysSessions wA = baileysSessions w" "timers wA = timers w" "dirs wA = dirs w"
    "sockets wA = sockets w" "factory_calls wA = factory_calls w" "length (heap wA) = length (heap w)"
    "socket (heap wA ! r) = socket (heap w ! r)" "stateDir (heap wA ! r) = stateDir (heap w ! r)"
    "retryCount (heap wA ! r) = retryCount (heap w ! r)"
  unfolding assms
  by (auto simp: on_qr_def update_session_def emit_def nth_update_gen split: option.splits)

lemma remove_facts:
  assumes "map_get (baileysSessions w) k = Some r"
    "\<not> (logout_rejects e (socket (heap w ! r)) \<and> end_throws e (socket (heap w ! r)))"
  shows "fst (removeBaileysSession e k d w) = None"
    "map_get (baileysSessions (snd (removeBaileysSession e k d w))) k' = (if k' = k then None else map_get (baileysSessions w) k')"
    "dirs (snd (removeBaileysSession e k d w)) = (if d \<and> \<not> rm_fails e (stateDir (heap w ! r)) then removeAll (stateDir (heap w ! r)) (dirs w) else dirs w)"
    "timers (snd (removeBaileysSession e k d w)) = timers w"
    "sockets (snd (removeBaileysSession e k d w)) = sockets w"
    "heap (snd (removeBaileysSession e k d w)) = heap w"
    "factory_calls (snd (removeBaileysSession e k d w)) = factory_calls w"
  using assms
  by (auto simp: removeBaileysSession_def Let_def emit_def map_get_map_delete)

lemma getOrCreate_fresh:
  assumes "map_get (baileysSessions w) k = None"
    "\<not> useMultiFileAuthState_throws e (path_join (AUTH_STATE_BASE_DIR e) (''session_'' @ k))"
    "\<not> makeWASocket_throws e (factory_calls w)"
  shows "fst (getOrCreateBaileysSession e now k cb opts w) = Inr (length (sockets w))"
    "factory_calls (snd (getOrCreateBaileysSession e now k cb opts w)) = factory_calls w + 1"
    "config_auth (sockets (snd (getOrCreateBaileysSession e now k cb opts w)) ! length (sockets w)) =
       socketConfig_auth (if path_join (AUTH_STATE_BASE_DIR e) (''session_'' @ k) \<in> set (dirs w) then PersistedCreds else FreshCreds) opts"
    "session_of (snd (getOrCreateBaileysSession e now k cb opts w)) k =
       Some \<lparr>session_mcpSessionId = k, socket = length (sockets w),
             stateDir = path_join (AUTH_STATE_BASE_DIR e) (''session_'' @ k),
             creationTime = now, lastActivityTime = now, qrCode = None,
             socketOptions = opts, retryCount = 0\<rparr>"
  using assms
  by (auto simp: getOrCreateBaileysSession_def Let_def session_of_def map_get_map_set)

lemma timers_remove [simp]: "timers (snd (removeBaileysSession e k d w)) = timers w"
  by (auto simp: removeBaileysSession_def Let_def emit_def split: option.splits)

text \<open>
  The handling of a terminal logout arms no timer, whatever the teardown does; and it
  removes the map entry whenever the teardown does not throw, also when the removal of
  the directory fails.
\<close>

lemma logout_arms_no_timer:
  assumes "update_connection u = Some ConnClose" "isLoggedOut e (boomError_of u)"
  shows "timers (connection_update e now sock u w) = timers w"
proof -
  define wA where "wA = on_qr (handler_session (sockets w ! sock)) (handler_callbacks (sockets w ! sock)) (update_qr u)
       (update_session (handler_session (sockets w ! sock)) (\<lambda>x. x\<lparr>lastActivityTime := now\<rparr>) w)"
  note pa = pre_close_facts [OF wA_def]
  show ?thesis
    using assms pa(2)
    by (simp add: connection_update_def Let_def on_close_def boomError_of_def wA_def [symmetric] emit_def)
qed

lemma logout_removes_entry:
  assumes u: "update_connection u = Some ConnClose" "isLoggedOut e (boomError_of u)"
    and k: "mcpSessionId = handler_mcpSessionId (sockets w ! sock)"
    and en: "session_of w mcpSessionId = Some entry"
    and teardown: "\<not> (logout_rejects e (socket entry) \<and> end_throws e (socket entry))"
  shows "map_get (baileysSessions (connection_update e now sock u w)) mcpSessionId = None"
proof -
  from en obtain r where r: "map_get (baileysSessions w) mcpSessionId = Some r" "entry = heap w ! r"
    by (auto simp: session_of_def split: option.splits)
  define wA where "wA = on_qr (handler_session (sockets w ! sock)) (handler_callbacks (sockets w ! sock)) (update_qr u)
       (update_session (handler_session (sockets w ! sock)) (\<lambda>x. x\<lparr>lastActivityTime := now\<rparr>) w)"
  define wB where "wB = emit (OnDisconnected (handler_callbacks (sockets w ! sock))
       (case update_lastDisconnect u of None \<Rightarrow> JUndefined | Some l \<Rightarrow> ld_reason l) mcpSessionId) wA"
  note pa = pre_close_facts [OF wA_def]
  have eq: "connection_update e now sock u w = snd (removeBaileysSession e mcpSessionId True wB)"
    using u by (simp add: connection_update_def Let_def on_close_def boomError_of_def wA_def wB_def k)
  have mB: "map_get (baileysSessions wB) mcpSessionId = Some r"
    using r pa(1) by (simp add: wB_def)
  have hB: "socket (heap wB ! r) = socket entry"
    using pa(7) [of r] r(2) by (simp add: wB_def emit_def)
  have tB: "\<not> (logout_rejects e (socket (heap wB ! r)) \<and> end_throws e (socket (heap wB ! r)))"
    using teardown hB by simp
  show ?thesis by (simp add: eq remove_facts(2) [OF mB tB])
qed

text \<open>
  What a terminal logout achieves where nothing fails. Let a socket of a tenant that has a
  map entry report a close whose status code is the logged-out code. If the teardown does
  not throw and the removal of the credential directory does not fail, then the map entry
  is removed, the credential directory is absent, and the handler arms no reconnection
  timer. A subsequent \<open>getOrCreateBaileysSession\<close> for the tenant, whose credential load and
  factory call succeed and whose options carry no \<open>auth\<close> of their own, invokes the factory
  once more, with empty credential state, and stores a new entry with \<open>retryCount = 0\<close> and
  no pending code.
\<close>

lemma logout_finality:
  assumes wf: "wf_world w" and s: "sock < length (sockets w)"
    and k: "mcpSessionId = handler_mcpSessionId (sockets w ! sock)"
    and u: "update_connection u = Some ConnClose" "update_lastDisconnect u = Some ld"
      "isLoggedOut e (ld_error ld)"
    and en: "session_of w mcpSessionId = Some entry"
    and dir: "stateDir entry = path_join (AUTH_STATE_BASE_DIR e) (''session_'' @ mcpSessionId)"
    and teardown: "\<not> (logout_rejects e (socket entry) \<and> end_throws e (socket entry))"
    and rm: "\<not> rm_fails e (stateDir entry)"
    and w': "w' = connection_update e now sock u w"
    and load: "\<not> useMultiFileAuthState_throws e (stateDir entry)"
      "\<not> makeWASocket_throws e (factory_calls w')"
    and opts: "socketConfig_auth FreshCreds opts = FreshCreds"
  shows "map_get (baileysSessions w') mcpSessionId = None
     \<and> stateDir entry \<notin> set (dirs w')
     \<and> timers w' = timers w
     \<and> fst (getOrCreateBaileysSession e later mcpSessionId cb opts w') = Inr (length (sockets w))
     \<and> factory_calls (snd (getOrCreateBaileysSession e later mcpSessionId cb opts w')) = factory_calls w' + 1
     \<and> config_auth (sockets (snd (getOrCreateBaileysSession e later mcpSessionId cb opts w')) ! length (sockets w)) = FreshCreds
     \<and> session_of (snd (getOrCreateBaileysSession e later mcpSessionId cb opts w')) mcpSessionId =
          Some \<lparr>session_mcpSessionId = mcpSessionId, socket = length (sockets w), stateDir = stateDir entry,
             creationTime = later, lastActivityTime = later, qrCode = None,
             socketOptions = opts, retryCount = 0\<rparr>"
proof -
  from en obtain r where r: "map_get (baileysSessions w) mcpSessionId = Some r" "entry = heap w ! r"
    by (auto simp: session_of_def split: option.splits)
  define wA where "wA = on_qr (handler_session (sockets w ! sock)) (handler_callbacks (sockets w ! sock)) (update_qr u)
       (update_session (handler_session (sockets w ! sock)) (\<lambda>x. x\<lparr>lastActivityTime := now\<rparr>) w)"
  define wB where "wB = emit (OnDisconnected (handler_callbacks (sockets w ! sock)) (ld_reason ld) mcpSessionId) wA"
  note pa = pre_close_facts [OF wA_def]
  have w'_eq: "w' = snd (removeBaileysSession e mcpSessionId True wB)"
    using u by (simp add: w' connection_update_def Let_def on_close_def wA_def wB_def k)
  have mB: "map_get (baileysSessions wB) mcpSessionId = Some r"
    using r pa(1) by (simp add: wB_def)
  have hB: "socket (heap wB ! r) = socket entry" "stateDir (heap wB ! r) = stateDir entry"
    using pa(7,8) [of r] r(2) by (simp_all add: wB_def emit_def)
  have tB: "\<not> (logout_rejects e (socket (heap wB ! r)) \<and> end_throws e (socket (heap wB ! r)))"
    using teardown hB by simp
  note rf = remove_facts [OF mB tB, of True]
  have A: "map_get (baileysSessions w') mcpSessionId = None"
    by (simp add: w'_eq rf(2))
  have B_frame: "dirs wB = dirs w" "timers wB = timers w" "sockets wB = sockets w"
    using pa(2,3,4) by (simp_all add: wB_def emit_def)
  have dirs': "dirs w' = removeAll (stateDir entry) (dirs w)"
    using rm by (simp add: w'_eq rf(3) hB B_frame)
  have B: "stateDir entry \<notin> set (dirs w')" by (simp add: dirs')
  have C: "timers w' = timers w" by (simp add: w'_eq rf(4) B_frame)
  have socks: "sockets w' = sockets w" by (simp add: w'_eq rf(5) B_frame)
  have l1: "\<not> useMultiFileAuthState_throws e (path_join (AUTH_STATE_BASE_DIR e) (''session_'' @ mcpSessionId))"
    using load(1) dir by simp
  note gf = getOrCreate_fresh [OF A l1 load(2), of later cb opts]
  have D: "fst (getOrCreateBaileysSession e later mcpSessionId cb opts w') = Inr (length (sockets w))"
    using gf(1) socks by simp
  have E: "factory_calls (snd (getOrCreateBaileysSession e later mcpSessionId cb opts w')) = factory_calls w' + 1"
    using gf(2) by simp
  have F: "config_auth (sockets (snd (getOrCreateBaileysSession e later mcpSessionId cb opts w')) ! length (sockets w)) = FreshCreds"
    using gf(3) B dir opts socks by simp
  have G: "session_of (snd (getOrCreateBaileysSession e later mcpSessionId cb opts w')) mcpSessionId =
          Some \<lparr>session_mcpSessionId = mcpSessionId, socket = length (sockets w), stateDir = stateDir entry,
             creationTime = later, lastActivityTime = later, qrCode = None,
             socketOptions = opts, retryCount = 0\<rparr>"
    using gf(4) socks dir by simp
  from A B C D E F G show ?thesis by blast
qed

lemma logout_finality_example:
  "wf_world t1_created
   \<and> isLoggedOut example_env (Some \<lparr>boom_message = ''Connection Failure'', output_statusCode = Some 401\<rparr>)
   \<and> map_get (baileysSessions t1_logged_out) ''t1'' = None
   \<and> ''.baileys_auth_state/session_t1'' \<notin> set (dirs t1_logged_out)
   \<and> timers t1_logged_out = []
   \<and> fst (getOrCreateBaileysSession example_env 20 ''t1'' 8 JUndefined t1_logged_out) = Inr 1
   \<and> config_auth (sockets (snd (getOrCreateBaileysSession example_env 20 ''t1'' 8 JUndefined
        t1_logged_out)) ! 1) = FreshCreds
   \<and> session_of (snd (getOrCreateBaileysSession example_env 20 ''t1'' 8 JUndefined t1_logged_out)) ''t1'' =
        Some \<lparr>session_mcpSessionId = ''t1'', socket = 1,
              stateDir = ''.baileys_auth_state/session_t1'', creationTime = 20,
              lastActivityTime = 20, qrCode = None, socketOptions = JUndefined, retryCount = 0\<rparr>"
proof -
  have wf: "wf_world t1_created" by code_simp
  have s: "(0::nat) < length (sockets t1_created)" by code_simp
  have k: "''t1'' = handler_mcpSessionId (sockets t1_created ! 0)" by code_simp
  have u: "update_connection logged_out = Some ConnClose"
    "update_lastDisconnect logged_out =
       Some \<lparr>ld_error = Some \<lparr>boom_message = ''Connection Failure'', output_statusCode = Some 401\<rparr>,
             ld_reason = JUndefined\<rparr>"
    by (simp_all add: logged_out_def close_update_def)
  have lo: "isLoggedOut example_env (ld_error \<lparr>ld_error = Some \<lparr>boom_message = ''Connection Failure'', output_statusCode = Some 401\<rparr>,
             ld_reason = JUndefined\<rparr>)"
    by (simp add: isLoggedOut_def example_env_def)
  have en: "session_of t1_created ''t1'' =
      Some \<lparr>session_mcpSessionId = ''t1'', socket = 0,
            stateDir = ''.baileys_auth_state/session_t1'', creationTime = 0,
            lastActivityTime = 0, qrCode = None, socketOptions = JUndefined, retryCount = 0\<rparr>"
    by code_simp
  have dir: "stateDir \<lparr>session_mcpSessionId = ''t1'', socket = 0,
            stateDir = ''.baileys_auth_state/session_t1'', creationTime = 0,
            lastActivityTime = 0, qrCode = None, socketOptions = JUndefined, retryCount = (0::int)\<rparr>
      = path_join (AUTH_STATE_BASE_DIR example_env) (''session_'' @ ''t1'')"
    by (simp add: path_join_def example_env_def)
  have env: "\<not> (logout_rejects example_env 0 \<and> end_throws example_env 0)"
    "\<not> rm_fails example_env ''.baileys_auth_state/session_t1''"
    "\<not> useMultiFileAuthState_throws example_env ''.baileys_auth_state/session_t1''"
    "\<not> makeWASocket_throws example_env (factory_calls t1_logged_out)"
    by (simp_all add: example_env_def)
  have opts: "socketConfig_auth FreshCreds JUndefined = FreshCreds"
    by (simp add: socketConfig_auth_def)
  have tm: "timers t1_created = []" "length (sockets t1_created) = 1" by code_simp+
  from logout_finality [OF wf s k u lo en dir _ _ t1_logged_out_def _ _ opts, of 20 8] env tm
  show ?thesis using wf lo by simp
qed

text \<open>
  The removal of the credential directory is best effort: the source catches and logs an
  error of \<open>fs.rm\<close>, so the entry is removed and the directory stays.
\<close>

lemma logout_keeps_directory_when_rm_fails:
  "map_get (baileysSessions (connection_update rm_fails_env 10 0 logged_out t1_created)) ''t1'' = None
   \<and> ''.baileys_auth_state/session_t1'' \<in> set (dirs (connection_update rm_fails_env 10 0 logged_out t1_created))"
  by code_simp

text \<open>
  C3 fails on the sources, in two ways. First, when \<open>logout()\<close> of the tenant's socket
  rejects and \<open>end()\<close> throws, \<open>removeBaileysSession\<close> rejects before it deletes the entry and
  the directory (the \<open>end()\<close> in the \<open>catch\<close> of the failed \<open>logout()\<close> is outside every \<open>try\<close>,
  and the close handler does not await the removal): after the terminal logout the tenant
  is still in the map with its credential directory, and a subsequent
  \<open>getOrCreateBaileysSession\<close> returns the logged-out socket with no fresh creation. Second,
  the callback of a restart timer does not look at what happened since it was armed: when
  a terminal logout follows a restart-required close within the delay, the logout removes
  the entry and the directory, and the timer then creates the tenant again, with a new
  socket and a new credential directory, so a reconnection is attempted after the logout.
\<close>

theorem logout_not_final:
  "map_get (baileysSessions t1_logout_end_throws) ''t1'' = Some 0
   \<and> ''.baileys_auth_state/session_t1'' \<in> set (dirs t1_logout_end_throws)
   \<and> fst (getOrCreateBaileysSession end_throws_env 20 ''t1'' 8 JUndefined t1_logout_end_throws) = Inr 0
   \<and> factory_calls (snd (getOrCreateBaileysSession end_throws_env 20 ''t1'' 8 JUndefined
        t1_logout_end_throws)) = 1
   \<and> map_get (baileysSessions t1_restart_then_logout) ''t1'' = None
   \<and> dirs t1_restart_then_logout = []
   \<and> length (timers t1_restart_then_logout) = 1
   \<and> map_get (baileysSessions t1_logout_then_timer) ''t1'' = Some 1
   \<and> factory_calls t1_logout_then_timer = 2
   \<and> dirs t1_logout_then_timer = [''.baileys_auth_state/session_t1'']"
  by code_simp

section \<open>The filter of inbound message batches\<close>

lemma upsert_forEach_char:
  "snd (upsert_forEach cb k msgs w) =
     w\<lparr>trace := trace w @ map (\<lambda>m. OnMessage cb m k)
                 (filter passes_filter (takeWhile (\<lambda>m. \<not> throws_at m) msgs))\<rparr>"
  by (induction msgs arbitrary: w)
     (auto simp: read_prop_def throws_at_def is_nullish_def passes_filter_def emit_def
        split: sum.splits)

lemma upsert_forEach_throws:
  "(fst (upsert_forEach cb k msgs w) = None) = (\<not> list_ex throws_at msgs)"
  by (induction msgs arbitrary: w)
     (auto simp: read_prop_def throws_at_def is_nullish_def split: sum.splits)

lemma message_events_map [simp]:
  "message_events (map (\<lambda>m. OnMessage cb m k) ms) = map (\<lambda>m. core_onMessage m k) ms"
  by (induction ms) simp_all

lemma messages_upsert_trace:
  "trace (snd (messages_upsert sock messages w)) =
     trace w @ map (\<lambda>m. OnMessage (handler_callbacks (sockets w ! sock)) m
                          (handler_mcpSessionId (sockets w ! sock)))
       (filter passes_filter (takeWhile (\<lambda>m. \<not> throws_at m)
          (case messages of None \<Rightarrow> [] | Some msgs \<Rightarrow> msgs)))"
proof (cases messages)
  case None
  then show ?thesis by (simp add: messages_upsert_def)
next
  case (Some msgs)
  then show ?thesis
    by (cases "msgs = []")
       (simp_all add: messages_upsert_def upsert_forEach_char del: upsert_forEach.simps)
qed

text \<open>
  C10. For every batch of a \<open>messages.upsert\<close> event, the handler calls \<open>onMessage\<close> exactly
  for the messages of the batch, in order and up to the first message on which a property
  read throws, that have truthy content (\<open>msg.message\<close>) and a falsy \<open>key.fromMe\<close>, and it
  does nothing else to the outside. So every \<open>onMessage\<close> call, and every
  \<open>baileys_new_message\<close> event the core's callback sends for one, is for a message with
  content that the tenant's own account did not send.
\<close>

theorem upsert_only_foreign_content:
  "trace (snd (messages_upsert sock messages w)) =
     trace w @ map (\<lambda>m. OnMessage (handler_callbacks (sockets w ! sock)) m
                          (handler_mcpSessionId (sockets w ! sock)))
       (filter passes_filter (takeWhile (\<lambda>m. \<not> throws_at m)
          (case messages of None \<Rightarrow> [] | Some msgs \<Rightarrow> msgs)))
   \<and> message_events (drop (length (trace w)) (trace (snd (messages_upsert sock messages w)))) =
       map (\<lambda>m. core_onMessage m (handler_mcpSessionId (sockets w ! sock)))
         (filter passes_filter (takeWhile (\<lambda>m. \<not> throws_at m)
            (case messages of None \<Rightarrow> [] | Some msgs \<Rightarrow> msgs)))
   \<and> list_all (\<lambda>m. truthy (jget m ''message'') \<and> \<not> truthy (jget (jget m ''key'') ''fromMe''))
         (filter passes_filter (takeWhile (\<lambda>m. \<not> throws_at m)
            (case messages of None \<Rightarrow> [] | Some msgs \<Rightarrow> msgs)))"
  by (simp add: messages_upsert_trace list_all_iff passes_filter_def)

lemma upsert_example:
  "trace (snd (messages_upsert 0
      (Some [JObj [(''key'', JObj [(''fromMe'', JBool True)]), (''message'', JObj [(''conversation'', JStr ''mine'')])],
             JObj [(''key'', JObj [(''fromMe'', JBool False)]), (''message'', JNull)],
             JObj [(''key'', JObj [(''fromMe'', JBool False)]), (''message'', JObj [(''conversation'', JStr ''hi'')])]])
      t1_created)) =
   [OnMessage 7 (JObj [(''key'', JObj [(''fromMe'', JBool False)]), (''message'', JObj [(''conversation'', JStr ''hi'')])]) ''t1'']"
  by code_simp

section \<open>The inactivity sweep\<close>

text \<open>
  C9 fails on the sources. Tenants \<open>A\<close> and \<open>B\<close> are both idle beyond the threshold; the
  socket of \<open>A\<close> rejects \<open>logout()\<close> and throws on the fallback \<open>end()\<close>. The removal of \<open>A\<close>
  rejects, the loop of \<open>cleanupInactiveBaileysSessions\<close> has no \<open>try\<close> around it, and the
  sweep ends with \<open>B\<close> (and \<open>A\<close>) still in the map.
\<close>

theorem sweep_stops_at_throwing_removal:
  "fst (cleanupInactiveBaileysSessions end_throws_env 1860000 default_maxIdleTimeMs two_tenants)
     = Some (new_Error ''end failed'')
   \<and> map_get (baileysSessions (snd (cleanupInactiveBaileysSessions end_throws_env 1860000
        default_maxIdleTimeMs two_tenants))) ''A'' = Some 0
   \<and> map_get (baileysSessions (snd (cleanupInactiveBaileysSessions end_throws_env 1860000
        default_maxIdleTimeMs two_tenants))) ''B'' = Some 1
   \<and> 1860000 - lastActivityTime (heap two_tenants ! 1) > default_maxIdleTimeMs"
  by code_simp

text \<open>Where no removal throws, the same sweep removes both tenants.\<close>

lemma sweep_removes_both:
  "cleanupInactiveBaileysSessions example_env 1860000 default_maxIdleTimeMs two_tenants
     = (None, two_tenants\<lparr>baileysSessions := [], trace := [SocketLogout 0, SocketLogout 1]\<rparr>)"
  by code_simp

text \<open>A removal whose \<open>logout()\<close> fails but whose \<open>end()\<close> returns does not stop the sweep.\<close>

lemma sweep_survives_failed_logout:
  "cleanupInactiveBaileysSessions (example_env\<lparr>logout_rejects := (\<lambda>sock. sock = 0)\<rparr>) 1860000
       default_maxIdleTimeMs two_tenants
     = (None, two_tenants\<lparr>baileysSessions := [],
                trace := [SocketLogout 0, SocketEnd 0, SocketLogout 1]\<rparr>)"
  by code_simp

section \<open>The retry bound\<close>

text \<open>
  The counts are touched by the handler of \<open>connection.update\<close> only, and every new entry
  starts at zero.
\<close>

lemma retry_counts_emit [simp]: "retry_counts (emit x w) = retry_counts w"
  by (simp add: retry_counts_def emit_def)

lemma retry_counts_update_session:
  "retry_counts (update_session r f w) =
     (if r < length (heap w) then (retry_counts w)[r := retryCount (f (heap w ! r))] else retry_counts w)"
  by (simp add: retry_counts_def update_session_def map_update list_update_beyond)

lemma retry_counts_update_same:
  assumes "\<And>x. retryCount (f x) = retryCount x"
  shows "retry_counts (update_session r f w) = retry_counts w"
proof (cases "r < length (heap w)")
  case True
  have "(retry_counts w)[r := retry_counts w ! r] = retry_counts w" by (rule list_update_id)
  moreover have "retry_counts w ! r = retryCount (heap w ! r)"
    using True by (simp add: retry_counts_def)
  ultimately show ?thesis using True assms by (simp add: retry_counts_update_session)
next
  case False
  then show ?thesis by (simp add: retry_counts_update_session)
qed

lemma retry_counts_on_qr [simp]: "retry_counts (on_qr r cb q w) = retry_counts w"
  by (simp add: on_qr_def retry_counts_update_same split: option.splits)

lemma retry_counts_remove [simp]:
  "retry_counts (snd (removeBaileysSession e k d w)) = retry_counts w"
  by (auto simp: removeBaileysSession_def Let_def emit_def retry_counts_def split: option.splits)


lemma retry_counts_frame [simp]:
  "retry_counts (w\<lparr>baileysSessions := m\<rparr>) = retry_counts w"
  "retry_counts (w\<lparr>timers := ts\<rparr>) = retry_counts w"
  "retry_counts (w\<lparr>trace := tr\<rparr>) = retry_counts w"
  "retry_counts (w\<lparr>dirs := ds\<rparr>) = retry_counts w"
  by (simp_all add: retry_counts_def)

lemma length_retry_counts [simp]: "length (retry_counts w) = length (heap w)"
  by (simp add: retry_counts_def)

lemma retry_counts_nth: "r < length (heap w) \<Longrightarrow> retry_counts w ! r = retryCount (heap w ! r)"
  by (simp add: retry_counts_def)

lemma retry_counts_getOrCreate:
  "retry_counts (snd (getOrCreateBaileysSession e now k cb opts w)) = retry_counts w
   \<or> retry_counts (snd (getOrCreateBaileysSession e now k cb opts w)) = retry_counts w @ [0]"
proof (cases "map_get (baileysSessions w) k")
  case (Some r)
  then show ?thesis
    by (simp add: getOrCreateBaileysSession_def Let_def retry_counts_update_same)
next
  case None
  then show ?thesis
    by (simp add: getOrCreateBaileysSession_def Let_def retry_counts_def)
qed

lemma retry_counts_restart:
  "retry_counts (restart_required_branch k cb w) =
     (case map_get (baileysSessions w) k of
        Some c \<Rightarrow>
          if retryCount (heap w ! c) < MAX_RETRIES \<and> c < length (heap w)
          then (retry_counts w)[c := retryCount (heap w ! c) + 1]
          else retry_counts w
      | None \<Rightarrow> retry_counts w)"
  by (simp add: restart_required_branch_def Let_def retry_counts_update_session
      split: option.splits)

lemma retry_counts_open_first:
  "retry_counts (update_session c (\<lambda>x. x\<lparr>retryCount := 0\<rparr>) w) = (retry_counts w)[c := 0]"
  by (simp add: retry_counts_update_session list_update_beyond)

lemma retry_counts_on_open:
  "retry_counts (on_open k r cb w) =
     (case map_get (baileysSessions w) k of
        Some c \<Rightarrow> (retry_counts w)[c := 0]
      | None \<Rightarrow> retry_counts w)"
  by (simp add: on_open_def Let_def retry_counts_update_same retry_counts_open_first
      split: option.splits)

lemma retry_counts_on_close:
  "retry_counts (on_close e k cb ld w) =
     (if \<not> isLoggedOut e (case ld of None \<Rightarrow> None | Some l \<Rightarrow> ld_error l)
         \<and> isRestartRequired (case ld of None \<Rightarrow> None | Some l \<Rightarrow> ld_error l)
      then retry_counts (restart_required_branch k cb
             (emit (OnDisconnected cb (case ld of None \<Rightarrow> JUndefined | Some l \<Rightarrow> ld_reason l) k) w))
      else retry_counts w)"
  by (simp add: on_close_def Let_def)


lemma retry_counts_restart_nth:
  "retry_counts (restart_required_branch k cb w) =
     (case map_get (baileysSessions w) k of
        Some c \<Rightarrow>
          if c < length (heap w) \<and> retry_counts w ! c < MAX_RETRIES
          then (retry_counts w)[c := retry_counts w ! c + 1]
          else retry_counts w
      | None \<Rightarrow> retry_counts w)"
  by (auto simp: retry_counts_restart retry_counts_nth split: option.splits)

lemma baileysSessions_on_qr [simp]: "baileysSessions (on_qr r cb q w) = baileysSessions w"
  by (simp add: on_qr_def split: option.splits)

lemma length_heap_on_qr [simp]: "length (heap (on_qr r cb q w)) = length (heap w)"
  by (simp add: on_qr_def emit_def split: option.splits)

lemma length_heap_emit [simp]: "length (heap (emit x w)) = length (heap w)"
  by (simp add: emit_def)

text \<open>
  What a \<open>connection.update\<close> event does to the counts: \<open>open\<close> sets the count of the
  tenant's entry to zero, a \<open>close\<close> that is restart-required and not a logout adds one to
  it when it is below \<open>MAX_RETRIES\<close>, and nothing else changes a count.
\<close>

lemma retry_counts_connection_update:
  "retry_counts (connection_update e now sock u w) =
     (case map_get (baileysSessions w) (handler_mcpSessionId (sockets w ! sock)) of
        None \<Rightarrow> retry_counts w
      | Some c \<Rightarrow>
          if update_connection u = Some ConnOpen then (retry_counts w)[c := 0]
          else if update_connection u = Some ConnClose
                  \<and> \<not> isLoggedOut e (boomError_of u) \<and> isRestartRequired (boomError_of u)
                  \<and> c < length (heap w) \<and> retry_counts w ! c < MAX_RETRIES
          then (retry_counts w)[c := retry_counts w ! c + 1]
          else retry_counts w)"
proof -
  let ?h = "sockets w ! sock"
  let ?w1 = "update_session (handler_session ?h) (\<lambda>x. x\<lparr>lastActivityTime := now\<rparr>) w"
  let ?w2 = "on_qr (handler_session ?h) (handler_callbacks ?h) (update_qr u) ?w1"
  have rc: "retry_counts ?w1 = retry_counts w" by (simp add: retry_counts_update_same)
  have m: "baileysSessions ?w2 = baileysSessions w" by simp
  have l: "length (heap ?w2) = length (heap w)" by simp
  show ?thesis
  proof (cases "update_connection u")
    case None
    then show ?thesis by (simp add: connection_update_def Let_def rc split: option.splits)
  next
    case (Some st)
    show ?thesis
    proof (cases st)
      case ConnOpen
      then show ?thesis
        using Some by (simp add: connection_update_def Let_def retry_counts_on_open rc m
            split: option.splits)
    next
      case ConnClose
      then show ?thesis
        using Some
        by (simp add: connection_update_def Let_def retry_counts_on_close boomError_of_def
            retry_counts_restart_nth rc m l split: option.splits)
    next
      case ConnConnecting
      then show ?thesis
        using Some by (simp add: connection_update_def Let_def rc split: option.splits)
    qed
  qed
qed


lemma retry_in_range_iff:
  "retry_in_range w \<longleftrightarrow>
     (\<forall>r < length (heap w). 0 \<le> retry_counts w ! r \<and> retry_counts w ! r \<le> MAX_RETRIES)"
  by (simp add: retry_in_range_def list_all_length)

lemma retry_in_range_initial: "retry_in_range initial_world"
  by (simp add: retry_in_range_def retry_counts_def initial_world_def)

lemma retry_in_range_getOrCreate:
  assumes "retry_in_range w"
  shows "retry_in_range (snd (getOrCreateBaileysSession e now k cb opts w))"
  using assms retry_counts_getOrCreate [of e now k cb opts w]
  by (auto simp: retry_in_range_def MAX_RETRIES_def)

lemma retry_in_range_remove:
  "retry_in_range (snd (removeBaileysSession e k d w)) = retry_in_range w"
  by (simp add: retry_in_range_def)

lemma retry_in_range_connection_update:
  assumes "retry_in_range w"
  shows "retry_in_range (connection_update e now sock u w)"
proof -
  have "length (retry_counts (connection_update e now sock u w)) = length (retry_counts w)"
    by (simp add: retry_counts_connection_update split: option.splits)
  then have len: "length (heap (connection_update e now sock u w)) = length (heap w)"
    by simp
  show ?thesis
    unfolding retry_in_range_iff len
    using assms
    by (auto simp: retry_in_range_iff retry_counts_connection_update nth_update_gen MAX_RETRIES_def
        split: option.splits)
qed

lemma retry_in_range_fire_timer:
  assumes "retry_in_range w"
  shows "retry_in_range (fire_timer e now w)"
proof (cases "timers w")
  case Nil
  then show ?thesis using assms by (simp add: fire_timer_def)
next
  case (Cons t ts)
  let ?w1 = "w\<lparr>timers := ts,
               baileysSessions := map_delete (baileysSessions w) (timer_mcpSessionId t)\<rparr>"
  have "retry_in_range ?w1" using assms by (simp add: retry_in_range_def)
  then have "retry_in_range (snd (getOrCreateBaileysSession e now (timer_mcpSessionId t)
      (timer_callbacks t) (socketOptions (heap ?w1 ! timer_currentSession t)) ?w1))"
    by (rule retry_in_range_getOrCreate)
  then show ?thesis using Cons by (simp add: fire_timer_def Let_def)
qed

text \<open>
  The count of an entry grows only by a \<open>close\<close> that is restart-required and not a logout,
  on the entry of the handler's tenant, and then by one.
\<close>

lemma retryCount_grows_only_on_restart:
  assumes "retry_in_range w" "r < length (heap w)"
    "retry_counts w ! r < retry_counts (connection_update e now sock u w) ! r"
  shows "update_connection u = Some ConnClose"
    "isRestartRequired (boomError_of u)" "\<not> isLoggedOut e (boomError_of u)"
    "map_get (baileysSessions w) (handler_mcpSessionId (sockets w ! sock)) = Some r"
    "retry_counts (connection_update e now sock u w) ! r = retry_counts w ! r + 1"
  using assms
  by (auto simp: retry_in_range_iff retry_counts_connection_update nth_update_gen
      split: option.splits if_splits)

lemma open_resets_retryCount:
  assumes "update_connection u = Some ConnOpen"
    "map_get (baileysSessions w) (handler_mcpSessionId (sockets w ! sock)) = Some r"
    "r < length (heap w)"
  shows "retry_counts (connection_update e now sock u w) ! r = 0"
  using assms by (simp add: retry_counts_connection_update)

text \<open>
  C1. The first parts of the claim hold: the count of an entry is set to zero by \<open>open\<close>
  (\<open>open_resets_retryCount\<close>), grows only by a restart-required close, by one
  (\<open>retryCount_grows_only_on_restart\<close>), and stays between zero and \<open>MAX_RETRIES\<close>
  (\<open>retry_in_range_connection_update\<close> and its companions). The bound on the
  reconnections fails on the sources. Every re-creation stores a new entry with
  \<open>retryCount = 0\<close>, so the count of the tenant never passes 1 when each close is followed
  by its timer: after three restart-required closes and their three re-creations the
  tenant is in the map, on its fourth socket, with \<open>retryCount = 0\<close> and no timer pending,
  and a fourth such close arms a fourth timer. When the three closes arrive on one socket
  before any timer fires, the three timers still re-create the tenant, which is in the map
  at the end.
\<close>

theorem retry_bound_not_enforced:
  "map_get (baileysSessions t1_retry3) ''t1'' = Some 3
   \<and> retryCount (heap t1_retry3 ! 3) = 0
   \<and> timers t1_retry3 = []
   \<and> factory_calls t1_retry3 = 4
   \<and> length (timers (connection_update example_env 9004 3 restart_required t1_retry3)) = 1
   \<and> map_get (baileysSessions (fire_timer example_env 12005
         (connection_update example_env 9004 3 restart_required t1_retry3))) ''t1'' = Some 4
   \<and> length (timers t1_burst) = 3
   \<and> map_get (baileysSessions t1_burst_fired) ''t1'' = Some 3
   \<and> timers t1_burst_fired = []"
  by code_simp

section \<open>The event adapter\<close>

lemma map_of_jset [simp]: "map_of (jset ps k v) k' = (if k' = k then Some v else map_of ps k')"
  by (induction ps) auto

lemma jget_jset: "jget (JObj (jset ps k v)) k' = (if k' = k then v else jget (JObj ps) k')"
  by simp

lemma media_fields_type:
  "is_media (jget message ''message'') \<Longrightarrow>
     \<exists>f. media_fields_of me message = Some f \<and> messageType f = media_tag (jget message ''message'')"
  by (auto simp: media_fields_of_def is_media_def media_tag_def Let_def)

lemma download_try_type:
  "download_try me message b f mt = Inr info \<Longrightarrow> jget info ''type'' = JStr (messageType f) \<and> truthy info"
  by (auto simp: download_try_def Let_def jget_jset split: sum.splits json.splits if_splits)

lemma downloadAndProcessMedia_type:
  assumes "media_fields_of me message = Some f" "messageType f \<noteq> []"
  shows "jget (downloadAndProcessMedia me message b) ''type'' = JStr (messageType f)"
    "truthy (downloadAndProcessMedia me message b)"
  using assms
  by (auto simp: downloadAndProcessMedia_def Let_def js_or_def dest: download_try_type split: sum.splits)

lemma media_tag_nonempty: "media_tag m \<noteq> []"
  by (simp add: media_tag_def)

lemma media_branch_type:
  assumes "is_media (jget message ''message'')"
  shows "map_of (media_branch me message payload) ''type'' = Some (JStr (media_tag (jget message ''message'')))"
proof -
  from media_fields_type [OF assms, of me] obtain f where
    f: "media_fields_of me message = Some f" "messageType f = media_tag (jget message ''message'')" by auto
  have ne: "messageType f \<noteq> []" using f(2) media_tag_nonempty by simp
  note d = downloadAndProcessMedia_type [OF f(1) ne, of True]
  show ?thesis
    using d f(2) ne by (simp add: media_branch_def Let_def js_or_def)
qed

lemma payload_timestamp_now: "isl (payload_timestamp me now message) = isl (payload_timestamp me 0 message)"
  by (auto simp: payload_timestamp_def Let_def split: json.splits sum.splits)

text \<open>
  C7, as amended. For every well-formed inbound message the adapter builds one payload
  and forwards it in one \<open>baileys_new_message\<close> event. The payload is tagged with exactly
  one of \<open>text\<close>, \<open>image\<close>, \<open>video\<close>, \<open>audio\<close>, \<open>document\<close>, \<open>sticker\<close>, \<open>reaction\<close>,
  \<open>location\<close>, \<open>contact\<close>, \<open>contacts_array\<close>, \<open>unknown\<close>: the first match over the populated
  sub-messages, where a media message carries the kind of its media (never the tag
  \<open>media\<close>). The \<open>unknown\<close> payload carries, as its text, the comma-separated names of the
  sub-messages that were present.
\<close>

theorem adapter_first_match:
  assumes "wellformed_message me message"
  shows "\<exists>payload. mcpMessagePayload me now message = Inr payload
     \<and> handleNewBaileysMessage me now mcpSessionId message sessions =
         (None, snd (sendEventToClient now mcpSessionId ''baileys_new_message'' payload sessions))
     \<and> jget payload ''type'' = JStr (first_match_tag message)
     \<and> first_match_tag message \<in> set adapter_tags
     \<and> first_match_tag message \<noteq> ''media''
     \<and> (first_match_tag message = ''unknown'' \<longrightarrow>
          jget payload ''text'' =
            JStr (''Received an unhandled message type. Content keys: '' @
                  (if truthy (jget message ''message'')
                   then join '', '' (Object_keys (jget message ''message'')) else ''null'')))"
proof -
  from assms obtain ts where ts: "payload_timestamp me now message = Inr ts"
    using payload_timestamp_now [of me now message]
    by (cases "payload_timestamp me now message") (auto simp: wellformed_message_def)
  from assms obtain cs where cs: "contacts_of (jget (jget (jget message ''message'') ''contactsArrayMessage'') ''contacts'') = Inr cs"
    by (cases "contacts_of (jget (jget (jget message ''message'') ''contactsArrayMessage'') ''contacts'')") (auto simp: wellformed_message_def)
  have k: "read_prop message ''key'' = Inr (jget message ''key'')"
    "read_prop (jget message ''key'') ''id'' = Inr (jget (jget message ''key'') ''id'')"
    using assms by (auto simp: wellformed_message_def read_prop_def is_nullish_def)
  have tags: "first_match_tag message \<in> set adapter_tags" "first_match_tag message \<noteq> ''media''"
    by (auto simp: first_match_tag_def adapter_tags_def media_tag_def Let_def)
  obtain payload where p: "mcpMessagePayload me now message = Inr payload"
    by (cases "mcpMessagePayload me now message")
       (auto simp: mcpMessagePayload_def k ts cs Let_def split: if_splits)
  have ty: "jget payload ''type'' = JStr (first_match_tag message)"
    using p
    by (auto simp: mcpMessagePayload_def k ts cs Let_def first_match_tag_def jget_jset media_branch_type split: if_splits)
  have un: "first_match_tag message = ''unknown'' \<longrightarrow>
          jget payload ''text'' =
            JStr (''Received an unhandled message type. Content keys: '' @
                  (if truthy (jget message ''message'')
                   then join '', '' (Object_keys (jget message ''message'')) else ''null''))"
    using p
    by (auto simp: mcpMessagePayload_def k ts cs Let_def first_match_tag_def jget_jset media_tag_def split: if_splits)
  have h: "handleNewBaileysMessage me now mcpSessionId message sessions =
         (None, snd (sendEventToClient now mcpSessionId ''baileys_new_message'' payload sessions))"
    by (simp add: handleNewBaileysMessage_def p)
  from p h ty tags un show ?thesis by blast
qed

text \<open>
  The theorem at an image message whose download succeeds: the message is well-formed and
  its payload is tagged \<open>image\<close>.
\<close>

theorem adapter_first_match_witness:
  "wellformed_message example_media_env image_message
   \<and> first_match_tag image_message = ''image''
   \<and> \<not> isl (mcpMessagePayload example_media_env 0 image_message)
   \<and> jget (projr (mcpMessagePayload example_media_env 0 image_message)) ''type'' = JStr ''image''"
proof -
  have wf: "wellformed_message example_media_env image_message" by code_simp
  have t: "first_match_tag image_message = ''image''" by code_simp
  from adapter_first_match [OF wf, of 0 "''s1''" example_sessions]
  obtain payload where "mcpMessagePayload example_media_env 0 image_message = Inr payload"
    "jget payload ''type'' = JStr (first_match_tag image_message)" by blast
  with wf t show ?thesis by simp
qed

text \<open>The claim as stated fails on an image message: its tag is \<open>image\<close>, none of the seven.\<close>

theorem adapter_tag_counterexample:
  "jget (projr (mcpMessagePayload example_media_env 0 image_message)) ''type'' = JStr ''image''
   \<and> ''image'' \<notin> set claimed_tags"
  by code_simp

text \<open>
  C8 fails on the sources. The media branch stores the path of the temporary file in the
  payload as \<open>media._serverFilePath\<close>, the payload is passed unchanged to
  \<open>sendEventToClient\<close>, and that serialises all of it: the one frame written to the
  client's transport contains the server-side path.
\<close>

theorem server_file_path_sent_to_client:
  "jget (jget (projr (mcpMessagePayload example_media_env 0 image_message)) ''media'') ''_serverFilePath''
     = JStr ''/tmp/mcp_baileys_media/u1.jpg''
   \<and> length (frames_of (snd (handleNewBaileysMessage example_media_env 0 ''s1'' image_message
        example_sessions)) ''s1'') = 1
   \<and> list_all (sublist (quote ''_serverFilePath'' @ '':'' @ quote ''/tmp/mcp_baileys_media/u1.jpg''))
        (frames_of (snd (handleNewBaileysMessage example_media_env 0 ''s1'' image_message
           example_sessions)) ''s1'')"
  by code_simp

section \<open>The action handler\<close>

lemma sendText_try_events:
  "sendText_try ae k sock jid body = (r, evs) \<Longrightarrow> filter is_terminal evs = []"
  by (auto simp: sendText_try_def is_terminal_def split: sum.splits if_splits)

lemma sendTextMessage_events:
  assumes "sendTextMessage ae now k jid body w = (res, events, w1)"
  shows "filter is_terminal events = []"
proof (cases "getBaileysSocket now k w")
  case (Pair so w')
  show ?thesis
  proof (cases so)
    case None
    with Pair assms show ?thesis
      by (auto simp: sendTextMessage_def is_terminal_def)
  next
    case (Some sock)
    obtain r evs where t: "sendText_try ae k sock jid body = (r, evs)"
      by (cases "sendText_try ae k sock jid body") auto
    from sendText_try_events [OF t] Pair Some assms t show ?thesis
      by (cases r) (auto simp: sendTextMessage_def is_terminal_def)
  qed
qed

lemma is_terminal_sendResponse:
  "is_terminal (sendResponse k action t data) = (t = ''mcp_action_success'' \<or> t = ''mcp_action_error'')"
  by (simp add: is_terminal_def sendResponse_def)

lemma success_response_is:
  "success_response k action body m = Inr r \<Longrightarrow> \<exists>data. r = sendResponse k action ''mcp_action_success'' data"
  by (auto simp: success_response_def split: sum.splits)

lemma send_text_case_terminal:
  assumes "send_text_case ae now k action w = (failure, events, w1)"
  shows "if failure = None then (\<exists>data. filter is_terminal events = [sendResponse k action ''mcp_action_success'' data])
         else filter is_terminal events = []"
  using assms
  by (auto simp: send_text_case_def Let_def is_terminal_sendResponse
      split: if_splits prod.splits sum.splits json.splits
      dest!: sendTextMessage_events success_response_is)

lemma send_image_case_terminal:
  assumes "send_image_case ae now k action w = (failure, events, w1)"
  shows "if failure = None then (\<exists>data. filter is_terminal events = [sendResponse k action ''mcp_action_success'' data])
         else filter is_terminal events = []"
  using assms
  by (auto simp: send_image_case_def Let_def is_terminal_sendResponse
      split: if_splits prod.splits sum.splits option.splits
      dest!: success_response_is)

lemma action_try_terminal:
  assumes "action_try ae now k action w = (failure, events, w1)"
  shows "if failure = None then (\<exists>data. filter is_terminal events = [sendResponse k action ''mcp_action_success'' data])
         else filter is_terminal events = []"
  using assms send_text_case_terminal [of ae now k action w failure events w1]
    send_image_case_terminal [of ae now k action w failure events w1]
  by (auto simp: action_try_def split: if_splits)

lemma error_details_throws:
  "isl (error_details error) \<longleftrightarrow> error = ThrownValue JUndefined \<or> error = ThrownValue JNull"
  by (cases error) (auto simp: error_details_def read_prop_def)

text \<open>
  The handler rejects exactly when its \<open>try\<close> threw \<open>undefined\<close> or \<open>null\<close>, and then it has
  handed no terminal event to \<open>sendEventToClient\<close>. The text case never lets such a value
  through, since \<open>sendTextMessage\<close> catches what \<open>socket.sendMessage\<close> rejects with.
\<close>

lemma action_rejects_iff:
  "fst (handleMcpClientAction ae now mcpSessionId action w) \<noteq> None \<longleftrightarrow>
     fst (action_try ae now mcpSessionId action w) = Some (ThrownValue JUndefined)
     \<or> fst (action_try ae now mcpSessionId action w) = Some (ThrownValue JNull)"
proof -
  obtain failure events w1 where t: "action_try ae now mcpSessionId action w = (failure, events, w1)"
    by (cases "action_try ae now mcpSessionId action w") auto
  show ?thesis
  proof (cases failure)
    case None
    with t show ?thesis by (simp add: handleMcpClientAction_def)
  next
    case (Some error)
    with t error_details_throws [of error] show ?thesis
      by (cases "error_details error") (auto simp: handleMcpClientAction_def)
  qed
qed

lemma action_rejected_no_terminal:
  assumes "fst (handleMcpClientAction ae now mcpSessionId action w) \<noteq> None"
  shows "filter is_terminal (fst (snd (handleMcpClientAction ae now mcpSessionId action w))) = []"
proof -
  obtain failure events w1 where t: "action_try ae now mcpSessionId action w = (failure, events, w1)"
    by (cases "action_try ae now mcpSessionId action w") auto
  note a = action_try_terminal [OF t]
  from assms t obtain error where e: "failure = Some error" "isl (error_details error)"
    by (cases failure; cases "error_details (the failure)") (auto simp: handleMcpClientAction_def)
  with a have "filter is_terminal events = []" by simp
  with e t show ?thesis
    by (cases "error_details error") (auto simp: handleMcpClientAction_def)
qed

lemma send_text_case_not_nullish:
  "fst (send_text_case ae now k action w) \<noteq> Some (ThrownValue v)"
  by (auto simp: send_text_case_def Let_def split: prod.splits sum.splits)

text \<open>
  For every action whose \<open>try\<close> returns or throws anything but \<open>undefined\<close> and \<open>null\<close>,
  whatever its type and payload, \<open>handleMcpClientAction\<close> returns and hands to
  \<open>sendEventToClient\<close> exactly one terminal event for the session: an \<open>mcp_action_success\<close>
  or an \<open>mcp_action_error\<close> response whose payload carries the action's type as
  \<open>_originalActionType\<close> and its request id as \<open>_requestId\<close>. It is the error response
  exactly when the \<open>try\<close> threw (unknown action, invalid payload, failed send), and then it
  carries a \<open>message\<close>. The other events of the call are the core's \<open>baileys_error\<close> notices.
\<close>

lemma action_gets_one_terminal_event:
  assumes "fst (action_try ae now mcpSessionId action w) \<noteq> Some (ThrownValue JUndefined)"
    "fst (action_try ae now mcpSessionId action w) \<noteq> Some (ThrownValue JNull)"
  shows "fst (handleMcpClientAction ae now mcpSessionId action w) = None
   \<and> (\<exists>eventType data.
     filter is_terminal (fst (snd (handleMcpClientAction ae now mcpSessionId action w))) =
       [(mcpSessionId, eventType, JObj data)]
     \<and> (eventType = ''mcp_action_success'' \<or> eventType = ''mcp_action_error'')
     \<and> map_of data ''_originalActionType'' = Some (JStr (actionType action))
     \<and> map_of data ''_requestId'' = Some (requestId action)
     \<and> (eventType = ''mcp_action_error'') = (fst (action_try ae now mcpSessionId action w) \<noteq> None)
     \<and> (eventType = ''mcp_action_error'' \<longrightarrow> (\<exists>m. map_of data ''message'' = Some (JStr m))))"
proof -
  obtain failure events w1 where t: "action_try ae now mcpSessionId action w = (failure, events, w1)"
    by (cases "action_try ae now mcpSessionId action w") auto
  note a = action_try_terminal [OF t]
  show ?thesis
  proof (cases failure)
    case None
    with a obtain data where "filter is_terminal events = [sendResponse mcpSessionId action ''mcp_action_success'' data]"
      by auto
    with None t show ?thesis
      by (simp add: handleMcpClientAction_def sendResponse_def)
  next
    case (Some error)
    with a have n: "filter is_terminal events = []" by simp
    from assms t Some error_details_throws [of error]
    obtain details where d: "error_details error = Inr details"
      by (cases "error_details error") auto
    with n Some t show ?thesis
      by (simp add: handleMcpClientAction_def sendResponse_def is_terminal_def)
  qed
qed

lemma action_examples:
  "handleMcpClientAction example_action_env 5 ''t1'' ping_action t1_created =
     (None,
      [(''t1'', ''mcp_action_error'',
        JObj [(''message'', JStr (''Error processing action '' @ [CHR 0x27] @ ''PING'' @ [CHR 0x27]
                                 @ '': Unknown or unsupported actionType: PING'')),
              (''details'', JObj []),
              (''_originalActionType'', JStr ''PING''),
              (''_requestId'', JStr ''r1'')])],
      t1_created)"
  "filter is_terminal (fst (snd (handleMcpClientAction example_action_env 5 ''t1'' text_action t1_created))) =
     [(''t1'', ''mcp_action_success'',
       JObj [(''message'', JStr ''Text message sent successfully via Baileys.''),
             (''baileysMessageId'', JStr ''SENT1''),
             (''details'', JObj [(''recipientJid'', JStr ''491700@s.whatsapp.net'')]),
             (''_originalActionType'', JStr ''SEND_TEXT_MESSAGE''),
             (''_requestId'', JStr ''r2'')])]"
  by code_simp+

text \<open>
  The text action where \<open>socket.sendMessage\<close> rejects with \<open>undefined\<close>: the \<open>catch\<close> of
  \<open>sendTextMessage\<close> reads no property of the value, reports a \<open>baileys_error\<close> and returns
  \<open>undefined\<close>, and the handler answers with one \<open>mcp_action_error\<close>.
\<close>

lemma text_action_rejection_example:
  "fst (handleMcpClientAction rejecting_action_env 5 ''t1'' text_action t1_created) = None"
  "map fst (map snd (fst (snd (handleMcpClientAction rejecting_action_env 5 ''t1'' text_action t1_created))))
     = [''baileys_error'', ''mcp_action_error'']"
  by code_simp+

text \<open>
  C5 fails on the sources. In the image case \<open>socket.sendMessage\<close> is awaited directly in the
  \<open>try\<close> of the handler. When its promise rejects with \<open>undefined\<close>, the \<open>catch\<close> reads
  \<open>(error as any).details\<close> of that value while it builds the error response: the read
  throws a \<open>TypeError\<close> before \<open>sendResponse\<close> is called, the handler rejects, and no event at
  all is handed to \<open>sendEventToClient\<close>, so nothing is written to any transport and the
  client gets neither a success nor an error response for its action.
\<close>

theorem nullish_rejection_gets_no_terminal_event:
  "fst (action_try rejecting_action_env 5 ''t1'' image_action t1_created)
     = Some (ThrownValue JUndefined)
   \<and> fst (handleMcpClientAction rejecting_action_env 5 ''t1'' image_action t1_created)
       = Some (new_Error ''Cannot read properties of undefined (reading details)'')
   \<and> fst (snd (handleMcpClientAction rejecting_action_env 5 ''t1'' image_action t1_created)) = []
   \<and> deliver 5 (fst (snd (handleMcpClientAction rejecting_action_env 5 ''t1'' image_action
         t1_created))) example_sessions = example_sessions"
  by code_simp

text \<open>
  The events handed to the broadcaster reach an open transport one frame each, in order.
\<close>

lemma transport_open_send [simp]:
  "transport_open (snd (sendEventToClient now k t d sessions)) k' = transport_open sessions k'"
  by (auto simp: sendEventToClient_def getSession_def transport_open_def send_try_def
      connection_write_def map_get_map_set Let_def split: option.splits prod.splits sum.splits)

lemma write_fails_send [simp]:
  "write_fails (snd (sendEventToClient now k t d sessions)) k' = write_fails sessions k'"
  by (auto simp: sendEventToClient_def getSession_def write_fails_def send_try_def
      connection_write_def map_get_map_set Let_def split: option.splits prod.splits sum.splits)

lemma deliver_frames:
  assumes "transport_open sessions k" "\<not> write_fails sessions k"
  shows "frames_of (deliver now evs sessions) k =
     frames_of sessions k @
       map (\<lambda>ev. eventString (fst (snd ev)) (projr (stringify (snd (snd ev)))))
         (filter (\<lambda>ev. fst ev = k \<and> \<not> isl (stringify (snd (snd ev)))) evs)"
  using assms
proof (induction evs arbitrary: sessions)
  case Nil
  then show ?case by simp
next
  case (Cons ev evs)
  obtain k' t d where ev: "ev = (k', t, d)" by (cases ev) auto
  have fr: "frames_of (snd (sendEventToClient now k' t d sessions)) k =
       frames_of sessions k @
       (if k = k' \<and> transport_open sessions k' \<and> \<not> isl (stringify d)
           \<and> \<not> write_fails sessions k'
        then [eventString t (projr (stringify d))] else [])"
    by (auto simp: sendEventToClient_def getSession_def transport_open_def write_fails_def
        send_try_def connection_write_def map_get_map_set frames_of_def Let_def
        split: option.splits prod.splits sum.splits)
  show ?case
    using Cons.prems Cons.IH [of "snd (sendEventToClient now k' t d sessions)"]
    by (auto simp: ev fr)
qed

end
